theory Spec2Isabelle
  imports Complex_Main "HOL-Library.Sublist"
begin

section \<open>Text\<close>

text \<open>
  A Python \<^verbatim>\<open>str\<close> is a sequence of Unicode code points; it is modelled as a list of
  code points, so that \<^verbatim>\<open>len\<close> is \<^const>\<open>length\<close> and \<^verbatim>\<open>==\<close> is equality. ASCII
  literals are written through \<open>str\<close>; Hangul text is written as its code points.
  Status values and exception messages, which are plain ASCII, stay HOL strings.
\<close>

type_synonym ustr = "nat list"

definition str :: "string \<Rightarrow> ustr" where
  "str s = map of_char s"

datatype py_error =
    RuntimeError string
  | KeyError ustr
  | IndexError
  | ZeroDivisionError

definition err_bind :: "'e + 'a \<Rightarrow> ('a \<Rightarrow> 'e + 'b) \<Rightarrow> 'e + 'b" where
  "err_bind m f = (case m of Inl e \<Rightarrow> Inl e | Inr x \<Rightarrow> f x)"

section \<open>Topic data (src/data/topic\_data.py)\<close>

definition CARD_TYPES :: "ustr list" where
  "CARD_TYPES =
    [str ''tarot'',
     str ''numerology'',
     str ''oracle'']"

definition MBTI_TYPES :: "ustr list" where
  "MBTI_TYPES =
    [str ''INTJ'',
     str ''INTP'',
     str ''ENTJ'',
     str ''ENTP'',
     str ''INFJ'',
     str ''INFP'',
     str ''ENFJ'',
     str ''ENFP'',
     str ''ISTJ'',
     str ''ISFJ'',
     str ''ESTJ'',
     str ''ESFJ'',
     str ''ISTP'',
     str ''ISFP'',
     str ''ESTP'',
     str ''ESFP'']"

definition LOVE_SITUATIONS :: "ustr list" where
  "LOVE_SITUATIONS =
    [[50672, 50528] @ str '' '' @ [48520, 50504] @ str '' (relationship anxiety)'',
     [48128, 45817] @ str '' (push-pull dynamics)'',
     [50528, 52265] @ str '' '' @ [50976, 54805] @ str '' (attachment style)'',
     [44144, 47532, 44048] @ str '' (emotional distance)'',
     [51116, 54924] @ str '' '' @ [44256, 48124] @ str '' (reconciliation concerns)'',
     [51060, 48324] @ str '' '' @ [54980] @ str '' '' @ [44048, 51221] @ str '' (post-breakup emotions)'',
     [51677, 49324, 46993] @ str '' (unrequited love)'',
     [44428, 53468, 44592] @ str '' (relationship boredom)'',
     [49888, 47280] @ str '' '' @ [47928, 51228] @ str '' (trust issues)'',
     [49548, 53685] @ str '' '' @ [45800, 51208] @ str '' (communication breakdown)'',
     [51656, 53804, 50752] @ str '' '' @ [51665, 52265] @ str '' (jealousy and obsession)'',
     [49324, 46993, 44284] @ str '' '' @ [51088, 51316, 44048] @ str '' (love and self-esteem)'',
     [44208, 54844] @ str '' '' @ [44256, 48124] @ str '' (marriage concerns)'',
     [50672, 49345] @ str ''/'' @ [50672, 54616] @ str '' '' @ [44288, 44228] @ str '' (age gap relationship)'',
     [51109, 44144, 47532] @ str '' '' @ [50672, 50528] @ str '' (long-distance relationship)'',
     [44048, 51221] @ str '' '' @ [54364, 54788] @ str '' '' @ [50612, 47140, 50880] @ str '' (difficulty expressing emotions)'',
     [49345, 45824, 48169] @ str '' '' @ [47560, 51020] @ str '' '' @ [51069, 44592] @ str '' (reading partner'' @ [39] @ str ''s mind)'',
     [44288, 44228] @ str '' '' @ [54056, 53556] @ str '' '' @ [48152, 48373] @ str '' (repeating relationship patterns)'',
     [54756, 50612, 51664] @ str '' '' @ [54980] @ str '' '' @ [48120, 47144] @ str '' (lingering attachment after breakup)'',
     [49352, 47196, 50868] @ str '' '' @ [49884, 51089] @ str '' '' @ [44256, 48124] @ str '' (concerns about new beginning)'']"

definition TAROT_MAJOR_ARCANA :: "ustr list" where
  "TAROT_MAJOR_ARCANA =
    [str ''The Fool'',
     str ''The Magician'',
     str ''The High Priestess'',
     str ''The Empress'',
     str ''The Emperor'',
     str ''The Hierophant'',
     str ''The Lovers'',
     str ''The Chariot'',
     str ''Strength'',
     str ''The Hermit'',
     str ''Wheel of Fortune'',
     str ''Justice'',
     str ''The Hanged Man'',
     str ''Death'',
     str ''Temperance'',
     str ''The Devil'',
     str ''The Tower'',
     str ''The Star'',
     str ''The Moon'',
     str ''The Sun'',
     str ''Judgement'',
     str ''The World'']"

definition TAROT_KOREAN :: "(ustr \<times> ustr) list" where
  "TAROT_KOREAN =
    [(str ''The Fool'', [48148, 48372]),
     (str ''The Magician'', [47560, 48277, 49324]),
     (str ''The High Priestess'', [50668, 49324, 51228]),
     (str ''The Empress'', [50668, 54889, 51228]),
     (str ''The Emperor'', [54889, 51228]),
     (str ''The Hierophant'', [44368, 54889]),
     (str ''The Lovers'', [50672, 51064]),
     (str ''The Chariot'', [51204, 52264]),
     (str ''Strength'', [55192]),
     (str ''The Hermit'', [51008, 46164, 51088]),
     (str ''Wheel of Fortune'', [50868, 47749, 51032] @ str '' '' @ [49688, 47112, 48148, 53300]),
     (str ''Justice'', [51221, 51032]),
     (str ''The Hanged Man'', [47588, 45804, 47536] @ str '' '' @ [49324, 46988]),
     (str ''Death'', [51453, 51020]),
     (str ''Temperance'', [51208, 51228]),
     (str ''The Devil'', [50501, 47560]),
     (str ''The Tower'', [53457]),
     (str ''The Star'', [48324]),
     (str ''The Moon'', [45804]),
     (str ''The Sun'', [53468, 50577]),
     (str ''Judgement'', [49900, 54032]),
     (str ''The World'', [49464, 44228])]"

definition NUMEROLOGY_NUMBERS :: "ustr list" where
  "NUMEROLOGY_NUMBERS =
    [str ''1'',
     str ''2'',
     str ''3'',
     str ''4'',
     str ''5'',
     str ''6'',
     str ''7'',
     str ''8'',
     str ''9'',
     str ''11'',
     str ''22'',
     str ''33'']"

definition NUMEROLOGY_KOREAN :: "(ustr \<times> ustr) list" where
  "NUMEROLOGY_KOREAN =
    [(str ''1'', [49707, 51088] @ str '' 1 ('' @ [47532, 45908, 49901, 44284] @ str '' '' @ [46021, 47549] @ str '')''),
     (str ''2'', [49707, 51088] @ str '' 2 ('' @ [51312, 54868, 50752] @ str '' '' @ [54028, 53944, 45320, 49901] @ str '')''),
     (str ''3'', [49707, 51088] @ str '' 3 ('' @ [52285, 51032, 49457, 44284] @ str '' '' @ [54364, 54788] @ str '')''),
     (str ''4'', [49707, 51088] @ str '' 4 ('' @ [50504, 51221, 44284] @ str '' '' @ [44592, 48152] @ str '')''),
     (str ''5'', [49707, 51088] @ str '' 5 ('' @ [48320, 54868, 50752] @ str '' '' @ [51088, 50976] @ str '')''),
     (str ''6'', [49707, 51088] @ str '' 6 ('' @ [49324, 46993, 44284] @ str '' '' @ [52293, 51076] @ str '')''),
     (str ''7'', [49707, 51088] @ str '' 7 ('' @ [50689, 51201] @ str '' '' @ [53456, 44396] @ str '')''),
     (str ''8'', [49707, 51088] @ str '' 8 ('' @ [55192, 44284] @ str '' '' @ [49457, 52712] @ str '')''),
     (str ''9'', [49707, 51088] @ str '' 9 ('' @ [50756, 49457, 44284] @ str '' '' @ [45208, 45588] @ str '')''),
     (str ''11'', [47560, 49828, 53552] @ str '' '' @ [45336, 48260] @ str '' 11 ('' @ [51649, 44288, 44284] @ str '' '' @ [50689, 44048] @ str '')''),
     (str ''22'', [47560, 49828, 53552] @ str '' '' @ [45336, 48260] @ str '' 22 ('' @ [49892, 54788, 44284] @ str '' '' @ [48708, 51204] @ str '')''),
     (str ''33'', [47560, 49828, 53552] @ str '' '' @ [45336, 48260] @ str '' 33 ('' @ [49324, 46993, 44284] @ str '' '' @ [52824, 50976] @ str '')'')]"

definition ORACLE_CARDS :: "ustr list" where
  "ORACLE_CARDS =
    [str ''New Beginnings'',
     str ''Trust Your Path'',
     str ''Release and Let Go'',
     str ''Divine Timing'',
     str ''Self Love'',
     str ''Healing Heart'',
     str ''Soul Connection'',
     str ''Inner Wisdom'',
     str ''Transformation'',
     str ''Boundaries'',
     str ''Forgiveness'',
     str ''Clarity'',
     str ''Patience'',
     str ''Courage'',
     str ''Balance'',
     str ''Authenticity'',
     str ''Gratitude'',
     str ''Hope'',
     str ''Surrender'',
     str ''Manifesting Love'']"

definition ORACLE_KOREAN :: "(ustr \<times> ustr) list" where
  "ORACLE_KOREAN =
    [(str ''New Beginnings'', [49352, 47196, 50868] @ str '' '' @ [49884, 51089]),
     (str ''Trust Your Path'', [44600, 51012] @ str '' '' @ [48127, 44592]),
     (str ''Release and Let Go'', [45459, 50500, 51452, 44592]),
     (str ''Divine Timing'', [49888, 49457, 54620] @ str '' '' @ [53440, 51060, 48141]),
     (str ''Self Love'', [51088, 44592] @ str '' '' @ [49324, 46993]),
     (str ''Healing Heart'', [52824, 50976, 54616, 45716] @ str '' '' @ [47560, 51020]),
     (str ''Soul Connection'', [50689, 54844, 51032] @ str '' '' @ [50672, 44208]),
     (str ''Inner Wisdom'', [45236, 47732, 51032] @ str '' '' @ [51648, 54812]),
     (str ''Transformation'', [48320, 54868]),
     (str ''Boundaries'', [44221, 44228] @ str '' '' @ [49444, 51221]),
     (str ''Forgiveness'', [50857, 49436]),
     (str ''Clarity'', [47749, 54869, 54632]),
     (str ''Patience'', [51064, 45236]),
     (str ''Courage'', [50857, 44592]),
     (str ''Balance'', [44512, 54805]),
     (str ''Authenticity'', [51652, 51221, 49457]),
     (str ''Gratitude'', [44048, 49324]),
     (str ''Hope'', [55148, 47581]),
     (str ''Surrender'', [47585, 44592, 44592]),
     (str ''Manifesting Love'', [49324, 46993] @ str '' '' @ [54788, 49892, 54868])]"

definition FORBIDDEN_WORDS :: "ustr list" where
  "FORBIDDEN_WORDS =
    [str ''definitely'',
     str ''guaranteed'',
     str ''100%'',
     str ''must happen'',
     str ''will happen'',
     str ''certain'',
     [54869, 49892, 55176],
     [48152, 46300, 49884],
     [53952, 47548, 50630, 51060],
     [48372, 51109],
     [47924, 51312, 44148],
     str ''100%'']"

section \<open>The ledger (src/utils/database.py)\<close>

text \<open>
  The table \<^verbatim>\<open>published_topics\<close> is a list of rows in insertion order. The columns
  \<^verbatim>\<open>id\<close> (the position) and \<^verbatim>\<open>published_at\<close> (the wall clock) are left out. Text
  is compared exactly, as SQLite compares it, and an \<^verbatim>\<open>INSERT\<close> is taken to succeed.
\<close>

record topic_row =
  row_mbti :: ustr
  row_love_situation :: ustr
  row_tarot_card :: ustr
  row_title :: ustr
  row_post_id :: "int option"
  row_post_url :: "ustr option"
  row_status :: string
  row_error_message :: "string option"

type_synonym TopicDatabase = "topic_row list"

definition is_topic_used :: "TopicDatabase \<Rightarrow> ustr \<Rightarrow> ustr \<Rightarrow> ustr \<Rightarrow> bool" where
  "is_topic_used db m s c =
     (let count = length (filter (\<lambda>r. row_mbti r = m \<and> row_love_situation r = s
                                         \<and> row_tarot_card r = c) db)
      in count > 0)"

definition save_published_topic ::
  "TopicDatabase \<Rightarrow> ustr \<Rightarrow> ustr \<Rightarrow> ustr \<Rightarrow> ustr \<Rightarrow> int option \<Rightarrow> ustr option
     \<Rightarrow> string \<Rightarrow> string option \<Rightarrow> TopicDatabase" where
  "save_published_topic db m s c t pid url st err =
     db @ [\<lparr>row_mbti = m, row_love_situation = s, row_tarot_card = c, row_title = t,
            row_post_id = pid, row_post_url = url, row_status = st,
            row_error_message = err\<rparr>]"

definition topic_key :: "topic_row \<Rightarrow> ustr \<times> ustr \<times> ustr" where
  "topic_key r = (row_mbti r, row_love_situation r, row_tarot_card r)"

section \<open>The allocator (src/generators/topic\_generator.py)\<close>

text \<open>
  \<^verbatim>\<open>random.choice(seq)\<close> picks \<^verbatim>\<open>seq[i]\<close> for an index \<open>i\<close> below \<^verbatim>\<open>len(seq)\<close> and
  raises IndexError on an empty sequence. The generator's output is an argument: the
  \<open>k\<close>-th call of \<^verbatim>\<open>random.choice\<close> within one allocation reads the raw value
  \<open>rnd k\<close> and reduces it modulo the length, so every element can be drawn and
  nothing else can.
\<close>

definition random_choice :: "'a list \<Rightarrow> nat \<Rightarrow> py_error + 'a" where
  "random_choice xs r = (if xs = [] then Inl IndexError else Inr (xs ! (r mod length xs)))"

definition dict_get :: "(ustr \<times> ustr) list \<Rightarrow> ustr \<Rightarrow> py_error + ustr" where
  "dict_get d k = (case map_of d k of None \<Rightarrow> Inl (KeyError k) | Some v \<Rightarrow> Inr v)"

record topic =
  mbti :: ustr
  love_situation :: ustr
  card_type :: ustr
  card_name :: ustr
  card_korean :: ustr
  tarot_card :: ustr
  tarot_korean :: ustr

definition max_attempts :: nat where
  "max_attempts = 100"

definition exhausted :: py_error where
  "exhausted = RuntimeError
     ''Unable to generate unique topic after 100 attempts. Database may be exhausted.''"

text \<open>One pass of the loop body up to the membership test: four draws.\<close>

definition draw_topic :: "(nat \<Rightarrow> nat) \<Rightarrow> nat \<Rightarrow> py_error + topic" where
  "draw_topic rnd attempt =
     err_bind (random_choice MBTI_TYPES (rnd (4 * attempt))) (\<lambda>m.
     err_bind (random_choice LOVE_SITUATIONS (rnd (4 * attempt + 1))) (\<lambda>s.
     err_bind (random_choice CARD_TYPES (rnd (4 * attempt + 2))) (\<lambda>ct.
     err_bind
       (if ct = str ''tarot'' then
          err_bind (random_choice TAROT_MAJOR_ARCANA (rnd (4 * attempt + 3))) (\<lambda>c.
          err_bind (dict_get TAROT_KOREAN c) (\<lambda>k. Inr (c, k)))
        else if ct = str ''numerology'' then
          err_bind (random_choice NUMEROLOGY_NUMBERS (rnd (4 * attempt + 3))) (\<lambda>c.
          err_bind (dict_get NUMEROLOGY_KOREAN c) (\<lambda>k. Inr (c, k)))
        else
          err_bind (random_choice ORACLE_CARDS (rnd (4 * attempt + 3))) (\<lambda>c.
          err_bind (dict_get ORACLE_KOREAN c) (\<lambda>k. Inr (c, k))))
       (\<lambda>(c, k).
          Inr \<lparr>mbti = m, love_situation = s, card_type = ct, card_name = c,
               card_korean = k, tarot_card = c, tarot_korean = k\<rparr>))))"

text \<open>
  The \<^verbatim>\<open>for attempt in range(self.max_attempts)\<close> loop, by recursion on the number of
  passes left. The first component of the result counts the calls of
  \<^verbatim>\<open>is_topic_used\<close> made so far; falling out of the loop raises the RuntimeError.
\<close>

fun probe_loop ::
  "TopicDatabase \<Rightarrow> (nat \<Rightarrow> nat) \<Rightarrow> nat \<Rightarrow> nat \<Rightarrow> nat \<times> (py_error + topic)" where
  "probe_loop db rnd attempt 0 = (attempt, Inl exhausted)"
| "probe_loop db rnd attempt (Suc left) =
     (case draw_topic rnd attempt of
        Inl e \<Rightarrow> (attempt, Inl e)
      | Inr t \<Rightarrow>
          if \<not> is_topic_used db (mbti t) (love_situation t) (card_name t)
          then (Suc attempt, Inr t)
          else probe_loop db rnd (Suc attempt) left)"

definition generate_unique_topic_probes ::
  "TopicDatabase \<Rightarrow> (nat \<Rightarrow> nat) \<Rightarrow> nat \<times> (py_error + topic)" where
  "generate_unique_topic_probes db rnd = probe_loop db rnd 0 max_attempts"

definition generate_unique_topic :: "TopicDatabase \<Rightarrow> (nat \<Rightarrow> nat) \<Rightarrow> py_error + topic" where
  "generate_unique_topic db rnd = snd (generate_unique_topic_probes db rnd)"


text \<open>
  One allocate-and-record cycle, as the coordinator performs it: the topic is drawn and a
  row is written under the topic's \<^verbatim>\<open>tarot_card\<close> field. A sequence of cycles stops at the
  first allocation that fails.
\<close>

definition allocate_and_record ::
  "TopicDatabase \<Rightarrow> (nat \<Rightarrow> nat) \<Rightarrow> ustr \<Rightarrow> int option \<Rightarrow> ustr option \<Rightarrow> string
     \<Rightarrow> string option \<Rightarrow> py_error + TopicDatabase" where
  "allocate_and_record db rnd t pid url st err =
     (case generate_unique_topic db rnd of
        Inl e \<Rightarrow> Inl e
      | Inr tp \<Rightarrow> Inr (save_published_topic db (mbti tp) (love_situation tp) (tarot_card tp)
                        t pid url st err))"

fun cycles ::
  "TopicDatabase
     \<Rightarrow> ((nat \<Rightarrow> nat) \<times> ustr \<times> int option \<times> ustr option \<times> string \<times> string option) list
     \<Rightarrow> py_error + TopicDatabase" where
  "cycles db [] = Inr db"
| "cycles db ((rnd, t, pid, url, st, err) # ps) =
     (case allocate_and_record db rnd t pid url st err of
        Inl e \<Rightarrow> Inl e
      | Inr db' \<Rightarrow> cycles db' ps)"

text \<open>The topic space: every personality type, every situation, every card of any kind.\<close>

definition ALL_CARDS :: "ustr list" where
  "ALL_CARDS = TAROT_MAJOR_ARCANA @ NUMEROLOGY_NUMBERS @ ORACLE_CARDS"

definition topic_space_used :: "TopicDatabase \<Rightarrow> bool" where
  "topic_space_used db =
     (\<forall>m\<in>set MBTI_TYPES. \<forall>s\<in>set LOVE_SITUATIONS. \<forall>c\<in>set ALL_CARDS. is_topic_used db m s c)"

definition full_ledger :: TopicDatabase where
  "full_ledger =
     [\<lparr>row_mbti = m, row_love_situation = s, row_tarot_card = c, row_title = [],
       row_post_id = None, row_post_url = None, row_status = ''draft'',
       row_error_message = None\<rparr>. m \<leftarrow> MBTI_TYPES, s \<leftarrow> LOVE_SITUATIONS, c \<leftarrow> ALL_CARDS]"

section \<open>Ledger statistics (TopicDatabase.get\_stats)\<close>

text \<open>
  Python's number here is an \<^verbatim>\<open>int\<close> (the literal 0 of the empty ledger) or a
  \<^verbatim>\<open>float\<close>. Floats are modelled by exact rationals: \<^verbatim>\<open>/\<close> is exact division and
  raises ZeroDivisionError on a zero divisor, \<^verbatim>\<open>round(x, 2)\<close> rounds to the nearest
  hundredth, ties to even, and leaves an \<^verbatim>\<open>int\<close> unchanged. The dictionary built from
  \<^verbatim>\<open>GROUP BY status\<close> has a key for every status that occurs.
\<close>

datatype pynum = PyInt int | PyFloat rat

definition py_truediv :: "int \<Rightarrow> int \<Rightarrow> py_error + rat" where
  "py_truediv a b = (if b = 0 then Inl ZeroDivisionError else Inr (of_int a / of_int b))"

definition round_half_even :: "rat \<Rightarrow> int" where
  "round_half_even y =
     (let f = \<lfloor>y\<rfloor>; d = y - of_int f
      in if d < 1 / 2 then f else if 1 / 2 < d then f + 1 else if even f then f else f + 1)"

fun py_round2 :: "pynum \<Rightarrow> pynum" where
  "py_round2 (PyInt n) = PyInt n"
| "py_round2 (PyFloat x) = PyFloat (of_int (round_half_even (x * 100)) / 100)"

record stats =
  total_published :: int
  by_status :: "string \<Rightarrow> int option"
  success_rate :: pynum

definition count_status :: "TopicDatabase \<Rightarrow> string \<Rightarrow> int" where
  "count_status db s = int (length (filter (\<lambda>r. row_status r = s) db))"

definition group_by_status :: "TopicDatabase \<Rightarrow> string \<Rightarrow> int option" where
  "group_by_status db s = (if count_status db s = 0 then None else Some (count_status db s))"

definition get_default :: "('k \<Rightarrow> 'v option) \<Rightarrow> 'k \<Rightarrow> 'v \<Rightarrow> 'v" where
  "get_default d k v = (case d k of None \<Rightarrow> v | Some x \<Rightarrow> x)"

definition get_stats :: "TopicDatabase \<Rightarrow> py_error + stats" where
  "get_stats db =
     (let total = int (length db);
          by_st = group_by_status db;
          success_count = get_default by_st ''publish'' 0 + get_default by_st ''draft'' 0
      in err_bind
           (if total > 0
            then err_bind (py_truediv success_count total) (\<lambda>q. Inr (PyFloat (q * 100)))
            else Inr (PyInt 0))
           (\<lambda>rate. Inr \<lparr>total_published = total, by_status = by_st,
                          success_rate = py_round2 rate\<rparr>))"


section \<open>Scheduling (src/utils/schedule.py)\<close>














section \<open>The content validator (src/validators/content\_validator.py)\<close>

text \<open>
  \<^verbatim>\<open>needle in haystack\<close> on strings is the search for a contiguous occurrence.
\<close>

fun py_in :: "ustr \<Rightarrow> ustr \<Rightarrow> bool" where
  "py_in w [] = (w = [])"
| "py_in w (c # cs) = (prefix w (c # cs) \<or> py_in w cs)"

text \<open>
  \<^verbatim>\<open>str.lower()\<close>, character by character. ASCII capitals map to their small letters;
  U+0130 is the one code point whose lower case is two code points (i and U+0307);
  the Kelvin sign U+212A maps to k. These are all the code points whose lower case
  contains an ASCII character, and Hangul, digits and punctuation have no case. Every
  other cased letter lowers to a letter outside ASCII and Hangul and is left as it is,
  which cannot change the result of searching for a word made of ASCII and Hangul
  characters, the only use \<^verbatim>\<open>lower\<close> has here.
\<close>

definition lower_char :: "nat \<Rightarrow> ustr" where
  "lower_char c =
     (if 65 \<le> c \<and> c \<le> 90 then [c + 32]
      else if c = 304 then [105, 775]
      else if c = 8490 then [107]
      else [c])"

definition py_lower :: "ustr \<Rightarrow> ustr" where
  "py_lower s = concat (map lower_char s)"

text \<open>\<^verbatim>\<open>sep.join(xs)\<close> and \<^verbatim>\<open>str(n)\<close> for the issue messages.\<close>

fun join :: "ustr \<Rightarrow> ustr list \<Rightarrow> ustr" where
  "join sep [] = []"
| "join sep [x] = x"
| "join sep (x # y # ys) = x @ sep @ join sep (y # ys)"

fun digits :: "nat \<Rightarrow> ustr" where
  "digits n = (if n < 10 then [48 + n] else digits (n div 10) @ [48 + n mod 10])"

text \<open>
  The heading pattern \<^verbatim>\<open>^##\s+.+$\<close> under \<^verbatim>\<open>re.MULTILINE\<close>. \<^verbatim>\<open>\s\<close> is Unicode white
  space, line feed included; \<^verbatim>\<open>.\<close> is any character but line feed; \<^verbatim>\<open>^\<close> holds at
  the start of the text and after a line feed, \<^verbatim>\<open>$\<close> at the end and before a line
  feed. \<open>h2_tail rest k\<close> is the matcher after \<^verbatim>\<open>##\<close> when \<^verbatim>\<open>\s+\<close> holds \<open>k\<close>
  characters: \<^verbatim>\<open>.+\<close> takes the run up to the next line feed, where \<^verbatim>\<open>$\<close> holds, and
  when the run is empty \<^verbatim>\<open>\s+\<close> gives one character back. It returns the length matched
  after \<^verbatim>\<open>##\<close>. \<open>findall_h2\<close> is \<^verbatim>\<open>re.findall\<close>: the matches from left to right, each
  search resuming where the previous match ended; \<open>bol\<close> says whether the current
  position starts a line.
\<close>

definition is_space :: "nat \<Rightarrow> bool" where
  "is_space c \<longleftrightarrow>
     c \<in> {9, 10, 11, 12, 13, 28, 29, 30, 31, 32, 133, 160, 5760, 8232, 8233, 8239, 8287, 12288}
     \<or> (8192 \<le> c \<and> c \<le> 8202)"

fun h2_tail :: "ustr \<Rightarrow> nat \<Rightarrow> nat option" where
  "h2_tail rest 0 = None"
| "h2_tail rest (Suc k) =
     (case takeWhile (\<lambda>c. c \<noteq> 10) (drop (Suc k) rest) of
        [] \<Rightarrow> h2_tail rest k
      | c # run \<Rightarrow> Some (Suc k + length (c # run)))"

definition h2_match :: "ustr \<Rightarrow> nat option" where
  "h2_match s =
     (if prefix (str ''##'') s
      then map_option (\<lambda>n. 2 + n) (h2_tail (drop 2 s) (length (takeWhile is_space (drop 2 s))))
      else None)"

function findall_h2 :: "bool \<Rightarrow> ustr \<Rightarrow> ustr list" where
  "findall_h2 bol [] = []"
| "findall_h2 bol (c # cs) =
     (case (if bol then h2_match (c # cs) else None) of
        Some n \<Rightarrow> take n (c # cs) # findall_h2 False (drop n (c # cs))
      | None \<Rightarrow> findall_h2 (c = 10) cs)"
  by pat_completeness auto
termination
  by (relation "measure (\<lambda>(b, s). length s)") (auto simp: h2_match_def split: if_splits)

definition required_disclaimer :: ustr where
  "required_disclaimer = [52280, 44256] @ str '' '' @ [51088, 47308, 51068] @ str '' '' @ [49104]"

definition check_forbidden_words :: "ustr \<Rightarrow> ustr list" where
  "check_forbidden_words text =
     (let text_lower = py_lower text
      in filter (\<lambda>word. py_in (py_lower word) text_lower) FORBIDDEN_WORDS)"

definition check_disclaimer :: "ustr \<Rightarrow> bool" where
  "check_disclaimer content = py_in required_disclaimer content"

definition check_seo_structure :: "ustr \<Rightarrow> bool" where
  "check_seo_structure content =
     (let h2_matches = findall_h2 True content in length h2_matches \<ge> 3)"

definition validate :: "ustr \<Rightarrow> ustr \<Rightarrow> bool \<times> ustr list" where
  "validate title content =
     (let issues = [];
          forbidden_found = check_forbidden_words (title @ str '' '' @ content);
          issues = (if forbidden_found \<noteq> []
                    then issues @ [str ''Found forbidden words: '' @ join (str '', '') forbidden_found]
                    else issues);
          issues = (if \<not> check_disclaimer content
                    then issues @ [str ''Missing required disclaimer''] else issues);
          issues = (if \<not> check_seo_structure content
                    then issues @ [str ''Missing proper H2/H3 heading structure''] else issues);
          issues = (if length content < 1000
                    then issues @ [str ''Content too short: '' @ digits (length content)
                                     @ str '' characters (minimum 1000)'']
                    else issues);
          is_valid = (length issues = 0)
      in (is_valid, issues))"




definition sample_head :: ustr where
  "sample_head =
     str ''##'' @ [10] @ str ''A'' @ [10] @ str ''##'' @ [10] @ str ''B'' @ [10]
       @ str ''##'' @ [10] @ str ''C'' @ [10] @ required_disclaimer"

definition sample_body :: ustr where
  "sample_body = sample_head @ replicate 1000 120"

text \<open>
  Sanitizing. \<^verbatim>\<open>re.compile(re.escape(w), re.IGNORECASE)\<close> matches the literal \<open>w\<close>
  character by character. A text character matches a pattern character when their
  simple lower cases agree; in addition, as the \<^verbatim>\<open>re\<close> documentation states, under
  IGNORECASE the letter i also matches U+0130 and U+0131 and the letter s also matches
  U+017F. \<open>sre_lower\<close> is the simple (one code point) lower case, given for the code
  points that lower to ASCII; the patterns consist of ASCII and Hangul only.
  \<^verbatim>\<open>pattern.sub(repl, s)\<close> replaces the matches found from left to right, resuming after
  each match; the replacement texts hold no backslash, so they are inserted as they
  are. The dictionary is iterated in insertion order.
\<close>

definition sre_lower :: "nat \<Rightarrow> nat" where
  "sre_lower c =
     (if 65 \<le> c \<and> c \<le> 90 then c + 32
      else if c = 304 then 105
      else if c = 8490 then 107
      else c)"

definition ci_match :: "nat \<Rightarrow> nat \<Rightarrow> bool" where
  "ci_match p c =
     (let lo = sre_lower p; ch = sre_lower c
      in ch = lo \<or> (lo = 105 \<and> ch = 305) \<or> (lo = 115 \<and> ch = 383))"

fun ci_prefix :: "ustr \<Rightarrow> ustr \<Rightarrow> bool" where
  "ci_prefix [] s = True"
| "ci_prefix (p # ps) [] = False"
| "ci_prefix (p # ps) (c # cs) = (ci_match p c \<and> ci_prefix ps cs)"


function re_sub_ci :: "ustr \<Rightarrow> ustr \<Rightarrow> ustr \<Rightarrow> ustr" where
  "re_sub_ci pat repl s =
     (if pat = [] then repl @ concat (map (\<lambda>c. c # repl) s)
      else case s of
             [] \<Rightarrow> []
           | c # cs \<Rightarrow>
               if ci_prefix pat s then repl @ re_sub_ci pat repl (drop (length pat) s)
               else c # re_sub_ci pat repl cs)"
  by pat_completeness auto
termination
  by (relation "measure (\<lambda>(pat, repl, s). length s)") auto

definition replacements :: "(ustr \<times> ustr) list" where
  "replacements =
     [(str ''definitely'', str ''likely''),
      (str ''guaranteed'', str ''possible''),
      (str ''100%'', str ''highly''),
      (str ''must happen'', str ''may happen''),
      (str ''will happen'', str ''might happen''),
      (str ''certain'', str ''probable''),
      ([54869, 49892, 55176], [50500, 47560, 46020]),
      ([48152, 46300, 49884], [44032, 45733, 54616, 47732]),
      ([53952, 47548, 50630, 51060],
         [44536, 47092] @ str '' '' @ [49688] @ str '' '' @ [51080, 49845, 45768, 45796]),
      ([48372, 51109], [44032, 45733, 49457]),
      ([47924, 51312, 44148], [44221, 50864, 50640] @ str '' '' @ [46384, 46972])]"

fun sanitize_loop :: "(ustr \<times> ustr) list \<Rightarrow> ustr \<Rightarrow> ustr" where
  "sanitize_loop [] sanitized = sanitized"
| "sanitize_loop ((forbidden, replacement) # rest) sanitized =
     sanitize_loop rest (re_sub_ci forbidden replacement sanitized)"

definition sanitize_content :: "ustr \<Rightarrow> ustr" where
  "sanitize_content content = sanitize_loop replacements content"





section \<open>The WordPress publisher (src/publishers/wordpress\_publisher.py)\<close>

text \<open>
  The CMS is the environment: \<open>server sent d\<close> is its answer to the request \<open>d\<close> after
  the requests \<open>sent\<close>, either the text of the exception the HTTP call ends in (network
  error, error status, malformed answer) or the post it created. The post requests sent
  so far are the state threaded through the publisher. A request body holds the
  categories and tags only when the list is not empty, and a date only for a
  \<^verbatim>\<open>future\<close> post with a non-zero \<^verbatim>\<open>schedule_hours\<close>; the date stands for
  \<^verbatim>\<open>now + schedule_hours\<close>. The result dictionaries are records whose absent keys
  are \<open>None\<close>, as \<^verbatim>\<open>dict.get\<close> reads them.
\<close>

record post_data =
  pd_title :: ustr
  pd_content :: ustr
  pd_status :: string
  pd_categories :: "int list option"
  pd_tags :: "int list option"
  pd_date :: "int option"

record wp_response =
  resp_id :: int
  resp_link :: ustr
  resp_status :: string
  resp_title :: ustr

type_synonym cms = "post_data list \<Rightarrow> post_data \<Rightarrow> string + wp_response"

record publish_result =
  res_success :: bool
  res_post_id :: "int option"
  res_link :: "ustr option"
  res_status :: "string option"
  res_title :: "ustr option"
  res_error :: "string option"
  res_fallback_used :: bool

definition truthy :: "int option \<Rightarrow> bool" where
  "truthy v = (case v of None \<Rightarrow> False | Some n \<Rightarrow> n \<noteq> 0)"

definition non_empty :: "int list \<Rightarrow> int list option" where
  "non_empty xs = (if xs = [] then None else Some xs)"

definition request ::
  "ustr \<Rightarrow> ustr \<Rightarrow> string \<Rightarrow> int list \<Rightarrow> int list \<Rightarrow> int option \<Rightarrow> post_data" where
  "request title content status categories tags hours =
     \<lparr>pd_title = title, pd_content = content, pd_status = status,
      pd_categories = non_empty categories, pd_tags = non_empty tags,
      pd_date = (if truthy hours \<and> status = ''future'' then hours else None)\<rparr>"

definition success_result :: "wp_response \<Rightarrow> publish_result" where
  "success_result r =
     \<lparr>res_success = True, res_post_id = Some (resp_id r), res_link = Some (resp_link r),
      res_status = Some (resp_status r), res_title = Some (resp_title r), res_error = None,
      res_fallback_used = False\<rparr>"

definition publish_once ::
  "cms \<Rightarrow> ustr \<Rightarrow> ustr \<Rightarrow> string \<Rightarrow> int list \<Rightarrow> int list \<Rightarrow> int option
     \<Rightarrow> post_data list \<Rightarrow> (string + publish_result) \<times> post_data list" where
  "publish_once server title content status categories tags hours sent =
     (let post_data = request title content status categories tags hours
      in (case server sent post_data of
            Inl e \<Rightarrow> Inl e
          | Inr result \<Rightarrow> Inr (success_result result),
          sent @ [post_data]))"

text \<open>
  The \<^verbatim>\<open>@retry(stop=stop_after_attempt(3), ...)\<close> decorator: the call is repeated until
  it returns or has failed the given number of times, and the last exception is
  raised. The waiting between attempts is not modelled.
\<close>

fun retry :: "nat \<Rightarrow> ('s \<Rightarrow> ('e + 'a) \<times> 's) \<Rightarrow> 's \<Rightarrow> ('e + 'a) \<times> 's" where
  "retry 0 f s = f s"
| "retry (Suc n) f s =
     (case f s of
        (Inr x, s') \<Rightarrow> (Inr x, s')
      | (Inl e, s') \<Rightarrow> if n = 0 then (Inl e, s') else retry n f s')"

definition publish_post ::
  "cms \<Rightarrow> ustr \<Rightarrow> ustr \<Rightarrow> string \<Rightarrow> int list \<Rightarrow> int list \<Rightarrow> int option
     \<Rightarrow> post_data list \<Rightarrow> (string + publish_result) \<times> post_data list" where
  "publish_post server title content status categories tags hours sent =
     retry 3 (publish_once server title content status categories tags hours) sent"

definition failure_result :: "ustr \<Rightarrow> string \<Rightarrow> publish_result" where
  "failure_result title e =
     \<lparr>res_success = False, res_post_id = None, res_link = None, res_status = None,
      res_title = Some title, res_error = Some e, res_fallback_used = False\<rparr>"

definition publish_with_fallback ::
  "cms \<Rightarrow> ustr \<Rightarrow> ustr \<Rightarrow> string \<Rightarrow> int list \<Rightarrow> int list \<Rightarrow> int option
     \<Rightarrow> post_data list \<Rightarrow> publish_result \<times> post_data list" where
  "publish_with_fallback server title content preferred_status categories tags hours sent =
     (case publish_post server title content preferred_status categories tags hours sent of
        (Inr result, sent1) \<Rightarrow> (result, sent1)
      | (Inl e, sent1) \<Rightarrow>
          (case publish_post server title content ''draft'' categories tags hours sent1 of
             (Inr result, sent2) \<Rightarrow> (result\<lparr>res_fallback_used := True\<rparr>, sent2)
           | (Inl fallback_error, sent2) \<Rightarrow> (failure_result title fallback_error, sent2)))"


section \<open>The coordinator (src/orchestrator.py)\<close>

text \<open>
  A \<^verbatim>\<open>ContentPublisher\<close> holds its settings and the ledger. One run reads its
  environment: the random draws, the content oracle (its answer to the \<open>k\<close>-th call for
  a topic, parsed into title and content), the taxonomy calls (an id or an exception for
  each name) and the CMS. Logging is left out. \<^verbatim>\<open>run\<close> returns the flag, the instance as the run leaves it and the requests
  sent. Every exception raised inside \<^verbatim>\<open>run\<close> ends it with \<^verbatim>\<open>False\<close>; a success result
  without a status cannot be stored (the column is NOT NULL) and ends the run that way.
\<close>

record content_data =
  cd_title :: ustr
  cd_content :: ustr

record publisher =
  publish_status :: string
  auto_sanitize :: bool
  schedule_hours :: "int option"
  ledger :: TopicDatabase

record run_env =
  env_rnd :: "nat \<Rightarrow> nat"
  env_claude :: "topic \<Rightarrow> nat \<Rightarrow> string + content_data"
  env_category :: "ustr \<Rightarrow> string + int"
  env_tag :: "ustr \<Rightarrow> string + int"
  env_wordpress :: cms

definition generate_content :: "run_env \<Rightarrow> topic \<Rightarrow> string + content_data" where
  "generate_content env tp = fst (retry 3 (\<lambda>k. (env_claude env tp k, Suc k)) 0)"

definition calculate_remaining_combinations :: "TopicDatabase \<Rightarrow> py_error + int" where
  "calculate_remaining_combinations db =
     (let total_possible =
            int (length MBTI_TYPES * length LOVE_SITUATIONS * length TAROT_MAJOR_ARCANA)
      in err_bind (get_stats db) (\<lambda>stats.
         let used = total_published stats;
             remaining = total_possible - used
         in err_bind (py_truediv used total_possible) (\<lambda>utilization. Inr remaining)))"

definition py_strip :: "ustr \<Rightarrow> ustr" where
  "py_strip s = rev (dropWhile is_space (rev (dropWhile is_space s)))"

definition get_categories :: "run_env \<Rightarrow> topic \<Rightarrow> int list" where
  "get_categories env tp =
     (case err_bind (env_category env (str ''MBTI '' @ mbti tp)) (\<lambda>mbti_cat.
           err_bind (env_category env
                      ([53440, 47196] @ str '' '' @ [49900, 47532] @ str '' '' @ [54644, 49437]))
             (\<lambda>tarot_cat.
           err_bind (env_category env ([50672, 50528] @ str '' '' @ [49900, 47532]))
             (\<lambda>love_cat. Inr [mbti_cat, tarot_cat, love_cat]))) of
        Inl e \<Rightarrow> []
      | Inr categories \<Rightarrow> categories)"

definition get_tags :: "run_env \<Rightarrow> topic \<Rightarrow> int list" where
  "get_tags env tp =
     (case err_bind (env_tag env (mbti tp)) (\<lambda>mbti_tag.
           err_bind (env_tag env (tarot_card tp)) (\<lambda>tarot_tag.
           err_bind (env_tag env (tarot_korean tp)) (\<lambda>tarot_kr_tag.
           let love_keyword = py_strip (takeWhile (\<lambda>c. c \<noteq> 40) (love_situation tp))
           in err_bind (env_tag env love_keyword) (\<lambda>love_tag.
                Inr [mbti_tag, tarot_tag, tarot_kr_tag, love_tag])))) of
        Inl e \<Rightarrow> []
      | Inr tags \<Rightarrow> tags)"

definition validation_step :: "publisher \<Rightarrow> ustr \<Rightarrow> ustr \<Rightarrow> ustr \<times> publisher" where
  "validation_step p title content =
     (let (is_valid, issues) = validate title content
      in if \<not> is_valid
         then (let (content, is_valid) =
                     (if auto_sanitize p
                      then (let content = sanitize_content content;
                                (is_valid, issues) = validate title content
                            in (content, is_valid))
                      else (content, is_valid))
               in if \<not> is_valid then (content, p\<lparr>publish_status := ''draft''\<rparr>)
                  else (content, p))
         else (content, p))"

definition publish_step ::
  "run_env \<Rightarrow> publisher \<Rightarrow> topic \<Rightarrow> ustr \<Rightarrow> ustr \<Rightarrow> post_data list
     \<Rightarrow> publish_result \<times> post_data list" where
  "publish_step env p tp title content sent =
     (let categories = get_categories env tp;
          tags = get_tags env tp;
          hours = (if publish_status p = ''future'' \<and> truthy (schedule_hours p)
                   then schedule_hours p else None)
      in publish_with_fallback (env_wordpress env) title content (publish_status p)
           categories tags hours sent)"

definition record_step :: "publisher \<Rightarrow> topic \<Rightarrow> ustr \<Rightarrow> publish_result \<Rightarrow> bool \<times> publisher" where
  "record_step p tp title result =
     (if res_success result
      then (case res_status result of
              None \<Rightarrow> (False, p)
            | Some st \<Rightarrow>
                (True, p\<lparr>ledger := save_published_topic (ledger p) (mbti tp) (love_situation tp)
                                      (tarot_card tp) title (res_post_id result)
                                      (res_link result) st None\<rparr>))
      else (False, p\<lparr>ledger := save_published_topic (ledger p) (mbti tp) (love_situation tp)
                                   (tarot_card tp) title None None ''failed''
                                   (res_error result)\<rparr>))"

definition run ::
  "run_env \<Rightarrow> publisher \<times> post_data list \<Rightarrow> bool \<times> publisher \<times> post_data list" where
  "run env state =
     (let (p, sent) = state
      in case generate_unique_topic (ledger p) (env_rnd env) of
           Inl e \<Rightarrow> (False, p, sent)
         | Inr tp \<Rightarrow>
             (case calculate_remaining_combinations (ledger p) of
                Inl e \<Rightarrow> (False, p, sent)
              | Inr remaining \<Rightarrow>
                  (case generate_content env tp of
                     Inl e \<Rightarrow> (False, p, sent)
                   | Inr content_data \<Rightarrow>
                       (let title = cd_title content_data;
                            (content, p) = validation_step p title (cd_content content_data);
                            (result, sent) = publish_step env p tp title content sent;
                            (ok, p) = record_step p tp title result
                        in (ok, p, sent)))))"

fun runs ::
  "run_env list \<Rightarrow> publisher \<times> post_data list \<Rightarrow> publisher \<times> post_data list" where
  "runs [] state = state"
| "runs (env # envs) state = runs envs (snd (run env state))"



text \<open>Sample environments: a CMS that creates what it is asked, one that refuses the
  first three requests, one that is down; an oracle with a body that is too short and
  one with a valid body.\<close>

definition echo_server :: cms where
  "echo_server sent d =
     Inr \<lparr>resp_id = int (length sent) + 1, resp_link = str ''https://blog.example/?p=1'',
          resp_status = pd_status d, resp_title = pd_title d\<rparr>"

definition flaky_server :: cms where
  "flaky_server sent d =
     (if length sent < 3 then Inl ''503 Server Error'' else echo_server sent d)"

definition down_server :: cms where
  "down_server sent d = Inl ''connection refused''"

definition sample_publisher :: publisher where
  "sample_publisher =
     \<lparr>publish_status = ''publish'', auto_sanitize = True, schedule_hours = None, ledger = []\<rparr>"

definition short_env :: run_env where
  "short_env =
     \<lparr>env_rnd = (\<lambda>k. 0),
      env_claude = (\<lambda>tp k. Inr \<lparr>cd_title = str ''T'', cd_content = str ''too short''\<rparr>),
      env_category = (\<lambda>name. Inr 5),
      env_tag = (\<lambda>name. Inl ''tags unavailable''),
      env_wordpress = echo_server\<rparr>"

definition valid_env :: run_env where
  "valid_env =
     \<lparr>env_rnd = (\<lambda>k. 1),
      env_claude = (\<lambda>tp k. Inr \<lparr>cd_title = str ''T'', cd_content = sample_body\<rparr>),
      env_category = (\<lambda>name. Inr 5),
      env_tag = (\<lambda>name. Inr 9),
      env_wordpress = echo_server\<rparr>"

text \<open>The topics drawn when every raw random value is 0, or is 1, and the row a
  successful first run records.\<close>

definition first_topic :: topic where
  "first_topic =
     \<lparr>mbti = str ''INTJ'',
      love_situation = [50672, 50528] @ str '' '' @ [48520, 50504] @ str '' (relationship anxiety)'',
      card_type = str ''tarot'', card_name = str ''The Fool'', card_korean = [48148, 48372],
      tarot_card = str ''The Fool'', tarot_korean = [48148, 48372]\<rparr>"

definition first_row :: "string \<Rightarrow> topic_row" where
  "first_row st =
     \<lparr>row_mbti = mbti first_topic, row_love_situation = love_situation first_topic,
      row_tarot_card = tarot_card first_topic, row_title = str ''T'', row_post_id = Some 1,
      row_post_url = Some (str ''https://blog.example/?p=1''), row_status = st,
      row_error_message = None\<rparr>"

definition second_topic :: topic where
  "second_topic =
     \<lparr>mbti = str ''INTP'',
      love_situation = [48128, 45817] @ str '' (push-pull dynamics)'',
      card_type = str ''numerology'', card_name = str ''2'',
      card_korean = [49707, 51088] @ str '' 2 ('' @ [51312, 54868, 50752] @ str '' ''
                      @ [54028, 53944, 45320, 49901] @ str '')'',
      tarot_card = str ''2'',
      tarot_korean = [49707, 51088] @ str '' 2 ('' @ [51312, 54868, 50752] @ str '' ''
                      @ [54028, 53944, 45320, 49901] @ str '')''\<rparr>"



section \<open>Allocation never repeats a recorded key\<close>

lemma is_topic_used_iff:
  "is_topic_used db m s c \<longleftrightarrow> (m, s, c) \<in> topic_key ` set db"
  by (induction db) (auto simp: is_topic_used_def topic_key_def Let_def)

lemma err_bind_Inr:
  "err_bind m f = Inr y \<Longrightarrow> \<exists>x. m = Inr x \<and> f x = Inr y"
  by (cases m) (auto simp: err_bind_def)

lemma draw_topic_legacy:
  "draw_topic rnd a = Inr t \<Longrightarrow> tarot_card t = card_name t"
  unfolding draw_topic_def
  by (auto dest!: err_bind_Inr split: if_splits)

lemma probe_loop_fresh:
  "probe_loop db rnd a n = (p, Inr t) \<Longrightarrow>
     \<not> is_topic_used db (mbti t) (love_situation t) (card_name t) \<and> tarot_card t = card_name t"
  by (induction n arbitrary: a) (auto simp: draw_topic_legacy split: sum.splits if_splits)

lemma generate_unique_topic_fresh:
  "generate_unique_topic db rnd = Inr t \<Longrightarrow>
     \<not> is_topic_used db (mbti t) (love_situation t) (card_name t) \<and> tarot_card t = card_name t"
  unfolding generate_unique_topic_def generate_unique_topic_probes_def
  by (metis probe_loop_fresh prod.collapse)

lemma allocate_and_record_fresh:
  assumes "allocate_and_record db rnd t pid url st err = Inr db'"
  shows "\<exists>r. db' = db @ [r] \<and> topic_key r \<notin> topic_key ` set db"
proof -
  from assms obtain tp where g: "generate_unique_topic db rnd = Inr tp"
    and d: "db' = save_published_topic db (mbti tp) (love_situation tp) (tarot_card tp) t pid url st err"
    by (auto simp: allocate_and_record_def split: sum.splits)
  from generate_unique_topic_fresh[OF g]
  have "(mbti tp, love_situation tp, tarot_card tp) \<notin> topic_key ` set db"
    by (simp add: is_topic_used_iff)
  with d show ?thesis
    by (simp add: save_published_topic_def topic_key_def)
qed

lemma cycles_fresh:
  "cycles db ps = Inr db' \<Longrightarrow>
     \<exists>rows. db' = db @ rows \<and> length rows = length ps \<and> distinct (map topic_key rows)
        \<and> (\<forall>r\<in>set rows. topic_key r \<notin> topic_key ` set db)"
proof (induction ps arbitrary: db)
  case Nil
  then show ?case by simp
next
  case (Cons p ps)
  obtain rnd t pid url st err where p: "p = (rnd, t, pid, url, st, err)"
    by (cases p) auto
  from Cons.prems p obtain db1 where a: "allocate_and_record db rnd t pid url st err = Inr db1"
    and c: "cycles db1 ps = Inr db'"
    by (auto split: sum.splits)
  from allocate_and_record_fresh[OF a] obtain r where r: "db1 = db @ [r]"
    and fresh: "topic_key r \<notin> topic_key ` set db" by blast
  from Cons.IH[OF c] obtain rows where rows: "db' = db1 @ rows" "length rows = length ps"
    "distinct (map topic_key rows)" "\<forall>x\<in>set rows. topic_key x \<notin> topic_key ` set db1"
    by blast
  have "db' = db @ (r # rows)" using rows r by simp
  moreover have "length (r # rows) = length (p # ps)" using rows by simp
  moreover have "distinct (map topic_key (r # rows))" using rows r by auto
  moreover have "\<forall>x\<in>set (r # rows). topic_key x \<notin> topic_key ` set db"
    using rows r fresh by auto
  ultimately show ?case by blast
qed


lemma probe_loop_first:
  assumes "draw_topic rnd a = Inr t"
    and "\<not> is_topic_used db (mbti t) (love_situation t) (card_name t)"
  shows "probe_loop db rnd a (Suc n) = (Suc a, Inr t)"
  using assms by simp


lemmas vocab_defs = MBTI_TYPES_def LOVE_SITUATIONS_def CARD_TYPES_def TAROT_MAJOR_ARCANA_def TAROT_KOREAN_def
     NUMEROLOGY_NUMBERS_def NUMEROLOGY_KOREAN_def ORACLE_CARDS_def ORACLE_KOREAN_def


lemma generate_unique_topic_unfold:
  "generate_unique_topic db rnd =
     snd (case draw_topic rnd 0 of
            Inl e \<Rightarrow> (0, Inl e)
          | Inr t \<Rightarrow>
              if \<not> is_topic_used db (mbti t) (love_situation t) (card_name t)
              then (Suc 0, Inr t)
              else probe_loop db rnd (Suc 0) 99)"
proof -
  have "probe_loop db rnd 0 max_attempts = probe_loop db rnd 0 (Suc 99)"
    by (simp add: max_attempts_def)
  then show ?thesis
    unfolding generate_unique_topic_def generate_unique_topic_probes_def
    by (simp only: probe_loop.simps)
qed

lemmas draw_eval = draw_topic_def err_bind_def random_choice_def dict_get_def vocab_defs str_def

text \<open>
  Claim C1. Every sequence of successful allocate-and-record cycles against one ledger
  appends one row per cycle; the keys (mbti, love\_situation, card name) of the appended
  rows are pairwise distinct, and none of them was in the ledger before the sequence
  started. Equivalently, whatever the draws are, a topic the allocator returns has a
  key the ledger does not hold. The card type plays no part: the membership test and
  the row use the card name only.
\<close>

theorem uniqueness:
  assumes "cycles db ps = Inr db'"
  shows "(\<exists>rows. db' = db @ rows \<and> length rows = length ps \<and> distinct (map topic_key rows)
            \<and> (\<forall>r\<in>set rows. \<not> is_topic_used db (row_mbti r) (row_love_situation r)
                                   (row_tarot_card r)))
     \<and> (\<forall>rnd t. generate_unique_topic db' rnd = Inr t
           \<longrightarrow> \<not> is_topic_used db' (mbti t) (love_situation t) (card_name t))"
  using cycles_fresh[OF assms] generate_unique_topic_fresh
  by (simp add: is_topic_used_iff topic_key_def)

theorem uniqueness_witness:
  "cycles [] [(\<lambda>_. 0, str ''A'', Some 1, None, ''draft'', None),
              (\<lambda>_. 1, str ''B'', None, None, ''failed'', Some ''boom'')]
     = Inr [\<lparr>row_mbti = str ''INTJ'', row_love_situation = LOVE_SITUATIONS ! 0,
              row_tarot_card = str ''The Fool'', row_title = str ''A'', row_post_id = Some 1,
              row_post_url = None, row_status = ''draft'', row_error_message = None\<rparr>,
            \<lparr>row_mbti = str ''INTP'', row_love_situation = LOVE_SITUATIONS ! 1,
              row_tarot_card = str ''2'', row_title = str ''B'', row_post_id = None,
              row_post_url = None, row_status = ''failed'', row_error_message = Some ''boom''\<rparr>]
   \<and> distinct (map topic_key
          [\<lparr>row_mbti = str ''INTJ'', row_love_situation = LOVE_SITUATIONS ! 0,
              row_tarot_card = str ''The Fool'', row_title = str ''A'', row_post_id = Some 1,
              row_post_url = None, row_status = ''draft'', row_error_message = None\<rparr>,
            \<lparr>row_mbti = str ''INTP'', row_love_situation = LOVE_SITUATIONS ! 1,
              row_tarot_card = str ''2'', row_title = str ''B'', row_post_id = None,
              row_post_url = None, row_status = ''failed'', row_error_message = Some ''boom''\<rparr>])"
  (is "?c = Inr ?rows \<and> _")
proof -
  have c: "?c = Inr ?rows"
    by (simp add: allocate_and_record_def generate_unique_topic_unfold draw_eval
          is_topic_used_def save_published_topic_def)
  from uniqueness[OF c] have "distinct (map topic_key ?rows)" by auto
  with c show ?thesis by simp
qed

section \<open>Exhaustion\<close>

lemma random_choice_mem:
  "xs \<noteq> [] \<Longrightarrow> \<exists>x. random_choice xs r = Inr x \<and> x \<in> set xs"
  by (simp add: random_choice_def)

lemma tarot_korean_total: "\<forall>c\<in>set TAROT_MAJOR_ARCANA. \<exists>k. dict_get TAROT_KOREAN c = Inr k"
  by (simp add: TAROT_MAJOR_ARCANA_def TAROT_KOREAN_def dict_get_def str_def)

lemma numerology_korean_total: "\<forall>c\<in>set NUMEROLOGY_NUMBERS. \<exists>k. dict_get NUMEROLOGY_KOREAN c = Inr k"
  by (simp add: NUMEROLOGY_NUMBERS_def NUMEROLOGY_KOREAN_def dict_get_def str_def)

lemma oracle_korean_total: "\<forall>c\<in>set ORACLE_CARDS. \<exists>k. dict_get ORACLE_KOREAN c = Inr k"
  by (simp add: ORACLE_CARDS_def ORACLE_KOREAN_def dict_get_def str_def)

lemma vocab_nonempty:
  "MBTI_TYPES \<noteq> []" "LOVE_SITUATIONS \<noteq> []" "CARD_TYPES \<noteq> []"
  "TAROT_MAJOR_ARCANA \<noteq> []" "NUMEROLOGY_NUMBERS \<noteq> []" "ORACLE_CARDS \<noteq> []"
  by (simp_all add: vocab_defs)

lemma draw_card_total:
  assumes "cards \<noteq> []" and "\<forall>c\<in>set cards. \<exists>k. dict_get korean c = Inr k"
  shows "\<exists>c k. err_bind (random_choice cards r) (\<lambda>c. err_bind (dict_get korean c) (\<lambda>k. Inr (c, k)))
            = Inr (c, k) \<and> c \<in> set cards"
proof -
  from random_choice_mem[OF assms(1)] obtain c where c: "random_choice cards r = Inr c" "c \<in> set cards"
    by blast
  with assms(2) obtain k where "dict_get korean c = Inr k" by blast
  with c show ?thesis by (auto simp: err_bind_def)
qed

lemma draw_topic_in_vocab:
  "\<exists>t. draw_topic rnd a = Inr t \<and> mbti t \<in> set MBTI_TYPES
        \<and> love_situation t \<in> set LOVE_SITUATIONS \<and> card_name t \<in> set ALL_CARDS"
proof -
  obtain m where m: "random_choice MBTI_TYPES (rnd (4 * a)) = Inr m" "m \<in> set MBTI_TYPES"
    using random_choice_mem[OF vocab_nonempty(1)] by blast
  obtain s where s: "random_choice LOVE_SITUATIONS (rnd (4 * a + 1)) = Inr s" "s \<in> set LOVE_SITUATIONS"
    using random_choice_mem[OF vocab_nonempty(2)] by blast
  obtain ct where ct: "random_choice CARD_TYPES (rnd (4 * a + 2)) = Inr ct"
    using random_choice_mem[OF vocab_nonempty(3)] by blast
  obtain c1 k1 where t1: "err_bind (random_choice TAROT_MAJOR_ARCANA (rnd (4 * a + 3)))
       (\<lambda>c. err_bind (dict_get TAROT_KOREAN c) (\<lambda>k. Inr (c, k))) = Inr (c1, k1)"
       "c1 \<in> set TAROT_MAJOR_ARCANA"
    using draw_card_total[OF vocab_nonempty(4) tarot_korean_total] by blast
  obtain c2 k2 where t2: "err_bind (random_choice NUMEROLOGY_NUMBERS (rnd (4 * a + 3)))
       (\<lambda>c. err_bind (dict_get NUMEROLOGY_KOREAN c) (\<lambda>k. Inr (c, k))) = Inr (c2, k2)"
       "c2 \<in> set NUMEROLOGY_NUMBERS"
    using draw_card_total[OF vocab_nonempty(5) numerology_korean_total] by blast
  obtain c3 k3 where t3: "err_bind (random_choice ORACLE_CARDS (rnd (4 * a + 3)))
       (\<lambda>c. err_bind (dict_get ORACLE_KOREAN c) (\<lambda>k. Inr (c, k))) = Inr (c3, k3)"
       "c3 \<in> set ORACLE_CARDS"
    using draw_card_total[OF vocab_nonempty(6) oracle_korean_total] by blast
  show ?thesis
    unfolding draw_topic_def
    using m s ct t1 t2 t3 by (simp add: err_bind_def ALL_CARDS_def)
qed

lemma probe_loop_exhausted:
  assumes "topic_space_used db"
  shows "probe_loop db rnd a n = (a + n, Inl exhausted)"
proof (induction n arbitrary: a)
  case 0
  show ?case by simp
next
  case (Suc n)
  obtain t where t: "draw_topic rnd a = Inr t" "mbti t \<in> set MBTI_TYPES"
      "love_situation t \<in> set LOVE_SITUATIONS" "card_name t \<in> set ALL_CARDS"
    using draw_topic_in_vocab by blast
  with assms have "is_topic_used db (mbti t) (love_situation t) (card_name t)"
    by (simp add: topic_space_used_def)
  with t Suc.IH[of "Suc a"] show ?case by simp
qed

lemma full_ledger_used: "topic_space_used full_ledger"
  unfolding topic_space_used_def is_topic_used_iff full_ledger_def topic_key_def
  by (auto simp: image_iff)

text \<open>
  Claim C4. When every combination of the topic space is recorded as used, the allocator
  probes the ledger exactly 100 times, once per pass, and then raises the RuntimeError;
  it returns no topic, whatever the random draws are.
\<close>

theorem exhaustion:
  assumes "topic_space_used db"
  shows "generate_unique_topic_probes db rnd = (100, Inl exhausted)
         \<and> generate_unique_topic db rnd = Inl exhausted"
  unfolding generate_unique_topic_def generate_unique_topic_probes_def
  using probe_loop_exhausted[OF assms, of rnd 0 max_attempts] by (simp add: max_attempts_def)

theorem exhaustion_witness:
  "topic_space_used full_ledger
   \<and> generate_unique_topic_probes full_ledger (\<lambda>k. 7 * k) = (100, Inl exhausted)
   \<and> generate_unique_topic full_ledger (\<lambda>k. 7 * k) = Inl exhausted"
  using exhaustion[OF full_ledger_used] full_ledger_used by simp

section \<open>Statistics are total\<close>

lemma get_default_group:
  "get_default (group_by_status db) s 0 = count_status db s"
  by (simp add: get_default_def group_by_status_def)

lemma get_stats_total:
  "get_stats db =
     Inr \<lparr>total_published = int (length db), by_status = group_by_status db,
          success_rate =
            (if db = [] then PyInt 0
             else py_round2 (PyFloat (of_int (count_status db ''publish'' + count_status db ''draft'')
                                        / of_int (int (length db)) * 100)))\<rparr>"
  by (simp add: get_stats_def Let_def get_default_group err_bind_def py_truediv_def)




section \<open>The scheduling policy\<close>








section \<open>Validation is the conjunction of four rules\<close>

declare digits.simps [simp del]

declare re_sub_ci.simps [simp del]

lemma py_in_sublist: "py_in w t \<longleftrightarrow> sublist w t"
  by (induction t) (auto simp: sublist_Cons_right)

lemma prefix_pad:
  assumes "x \<notin> set w" and "prefix w (ys @ replicate n x)"
  shows "prefix w ys"
proof -
  from assms(2) consider "prefix w ys" | us where "w = ys @ us" "prefix us (replicate n x)"
    by (auto simp: prefix_append)
  then show ?thesis
  proof cases
    case 1
    then show ?thesis .
  next
    case 2
    then have "set us \<subseteq> {x}" using set_mono_prefix by fastforce
    with assms(1) 2(1) have "us = []" by (cases us) auto
    with 2(1) show ?thesis by simp
  qed
qed

lemma py_in_pad:
  assumes "w \<noteq> []" and "x \<notin> set w"
  shows "py_in w (xs @ replicate n x) \<longleftrightarrow> py_in w xs"
proof (induction xs)
  case Nil
  have "\<not> sublist w (replicate n x)"
  proof
    assume "sublist w (replicate n x)"
    then have "set w \<subseteq> {x}" using set_mono_sublist by fastforce
    with assms show False by (cases w) auto
  qed
  with assms(1) show ?case by (simp add: py_in_sublist)
next
  case (Cons c cs)
  have "prefix w (c # cs @ replicate n x) \<longleftrightarrow> prefix w (c # cs)"
    using prefix_pad[OF assms(2), of "c # cs" n] prefix_prefix[of w "c # cs" "replicate n x"] by auto
  with Cons show ?case by simp
qed

lemma py_in_replicate:
  "w \<noteq> [] \<Longrightarrow> x \<notin> set w \<Longrightarrow> \<not> py_in w (replicate n x)"
  using py_in_pad[of w x "[]" n] by simp

lemma py_in_append_mono: "py_in w xs \<Longrightarrow> py_in w (xs @ ys)"
  by (auto simp: py_in_sublist sublist_def) (metis append.assoc)

lemma py_lower_append: "py_lower (xs @ ys) = py_lower xs @ py_lower ys"
  by (simp add: py_lower_def)

lemma py_lower_pad: "py_lower (replicate n 120) = replicate n 120"
  by (induction n) (simp_all add: py_lower_def lower_char_def)

lemma findall_no_hash: "35 \<notin> set s \<Longrightarrow> findall_h2 b s = []"
  by (induction b s rule: findall_h2.induct) (auto simp: h2_match_def str_def)


lemma sample_findall:
  "findall_h2 True sample_body = [[35, 35, 10, 65], [35, 35, 10, 66], [35, 35, 10, 67]]"
  by (simp add: sample_body_def sample_head_def str_def required_disclaimer_def h2_match_def
        is_space_def findall_no_hash)


lemma sample_disclaimer: "check_disclaimer sample_body"
  unfolding check_disclaimer_def sample_body_def
  by (rule py_in_append_mono) (simp add: sample_head_def str_def required_disclaimer_def)

lemma sample_no_forbidden: "check_forbidden_words (str ''T'' @ str '' '' @ sample_body) = []"
  by (simp add: check_forbidden_words_def sample_body_def py_lower_append py_lower_pad
        FORBIDDEN_WORDS_def py_in_replicate sample_head_def str_def required_disclaimer_def
        py_lower_def lower_char_def Let_def)

lemma sample_length: "length sample_body = 1023"
  by (simp add: sample_body_def sample_head_def str_def required_disclaimer_def)

lemma sample_valid: "validate (str ''T'') sample_body = (True, [])"
  by (simp add: validate_def sample_findall sample_disclaimer sample_no_forbidden sample_length
        check_seo_structure_def)

lemma validate_issues:
  "validate title content =
     (check_forbidden_words (title @ str '' '' @ content) = [] \<and> check_disclaimer content
        \<and> check_seo_structure content \<and> 1000 \<le> length content,
      (if check_forbidden_words (title @ str '' '' @ content) = [] then []
       else [str ''Found forbidden words: ''
               @ join (str '', '') (check_forbidden_words (title @ str '' '' @ content))])
      @ (if check_disclaimer content then [] else [str ''Missing required disclaimer''])
      @ (if check_seo_structure content then []
         else [str ''Missing proper H2/H3 heading structure''])
      @ (if 1000 \<le> length content then []
         else [str ''Content too short: '' @ digits (length content)
                 @ str '' characters (minimum 1000)'']))"
  by (auto simp: validate_def Let_def)

lemma check_forbidden_words_empty:
  "check_forbidden_words text = []
     \<longleftrightarrow> list_all (\<lambda>w. \<not> sublist (py_lower w) (py_lower text)) FORBIDDEN_WORDS"
  by (simp add: check_forbidden_words_def Let_def filter_empty_conv list_all_iff py_in_sublist)



section \<open>Sanitizing removes every forbidden term\<close>

lemma re_sub_ci_Nil: "pat \<noteq> [] \<Longrightarrow> re_sub_ci pat r [] = []"
  by (subst re_sub_ci.simps) simp

lemma re_sub_ci_match:
  "pat \<noteq> [] \<Longrightarrow> ci_prefix pat (c # cs) \<Longrightarrow>
     re_sub_ci pat r (c # cs) = r @ re_sub_ci pat r (drop (length pat) (c # cs))"
  by (subst re_sub_ci.simps) simp

lemma re_sub_ci_skip:
  "pat \<noteq> [] \<Longrightarrow> \<not> ci_prefix pat (c # cs) \<Longrightarrow>
     re_sub_ci pat r (c # cs) = c # re_sub_ci pat r cs"
  by (subst re_sub_ci.simps) simp





























lemmas sub_eval = re_sub_ci_Nil re_sub_ci_match re_sub_ci_skip


text \<open>
  Where the two notions part: \<^verbatim>\<open>certain\<close> spelled with the dotless U+0131 is not found
  by the validator's lower-case search, and the pattern for \<^verbatim>\<open>certain\<close> matches it.
\<close>

lemma dotless_i_is_replaced:
  "check_forbidden_words [99, 101, 114, 116, 97, 305, 110] = []
   \<and> list_all (\<lambda>w. \<not> sublist (py_lower w) (py_lower [99, 101, 114, 116, 97, 305, 110])) FORBIDDEN_WORDS
   \<and> sanitize_content [99, 101, 114, 116, 97, 305, 110] = str ''probable''
   \<and> sanitize_content [99, 101, 114, 116, 97, 305, 110] \<noteq> [99, 101, 114, 116, 97, 305, 110]"
proof -
  have a: "check_forbidden_words [99, 101, 114, 116, 97, 305, 110] = []"
    by (simp add: check_forbidden_words_def FORBIDDEN_WORDS_def str_def py_lower_def lower_char_def)
  have b: "sanitize_content [99, 101, 114, 116, 97, 305, 110] = str ''probable''"
    by (simp add: sanitize_content_def replacements_def str_def sub_eval ci_match_def sre_lower_def)
  have c: "str ''probable'' \<noteq> [99, 101, 114, 116, 97, 305, 110]"
    by (simp add: str_def)
  from a b c show ?thesis by (simp add: check_forbidden_words_empty)
qed

section \<open>Publishing falls back to a draft\<close>

lemma retry3:
  "retry 3 f s =
     (case f s of
        (Inr x, s1) \<Rightarrow> (Inr x, s1)
      | (Inl e1, s1) \<Rightarrow>
          (case f s1 of
             (Inr x, s2) \<Rightarrow> (Inr x, s2)
           | (Inl e2, s2) \<Rightarrow> f s2))"
  by (simp add: numeral_3_eq_3 split: prod.splits sum.splits)

lemma publish_once_eq:
  "publish_once server t c st cats tags h sent =
     (case server sent (request t c st cats tags h) of
        Inl e \<Rightarrow> Inl e | Inr r \<Rightarrow> Inr (success_result r),
      sent @ [request t c st cats tags h])"
  by (simp add: publish_once_def success_result_def Let_def split: sum.splits)

lemma publish_post_result:
  assumes "publish_post server t c st cats tags h sent = (r, sent')"
  shows "\<exists>k. 1 \<le> k \<and> k \<le> 3
           \<and> sent' = sent @ replicate k (request t c st cats tags h)
           \<and> (case r of
                 Inl e \<Rightarrow> k = 3 \<and> server (sent @ replicate 2 (request t c st cats tags h))
                                     (request t c st cats tags h) = Inl e
               | Inr res \<Rightarrow>
                   \<exists>resp. server (sent @ replicate (k - 1) (request t c st cats tags h))
                             (request t c st cats tags h) = Inr resp
                          \<and> res = success_result resp)"
proof -
  let ?rq = "request t c st cats tags h"
  show ?thesis
  proof (cases "server sent ?rq")
    case (Inr resp)
    with assms have "r = Inr (success_result resp)" "sent' = sent @ replicate 1 ?rq"
      by (auto simp: publish_post_def retry3 publish_once_eq)
    with Inr show ?thesis by (intro exI[of _ 1]) simp
  next
    case e1: (Inl e1)
    show ?thesis
    proof (cases "server (sent @ [?rq]) ?rq")
      case (Inr resp)
      with assms e1 have "r = Inr (success_result resp)" "sent' = sent @ replicate 2 ?rq"
        by (auto simp: publish_post_def retry3 publish_once_eq numeral_2_eq_2)
      with Inr show ?thesis by (intro exI[of _ 2]) (simp add: numeral_2_eq_2)
    next
      case e2: (Inl e2)
      show ?thesis
      proof (cases "server (sent @ [?rq, ?rq]) ?rq")
        case (Inr resp)
        with assms e1 e2 have "r = Inr (success_result resp)" "sent' = sent @ replicate 3 ?rq"
          by (auto simp: publish_post_def retry3 publish_once_eq numeral_3_eq_3)
        with Inr show ?thesis by (intro exI[of _ 3]) (simp add: numeral_2_eq_2)
      next
        case (Inl e3)
        with assms e1 e2 have "r = Inl e3" "sent' = sent @ replicate 3 ?rq"
          by (auto simp: publish_post_def retry3 publish_once_eq numeral_3_eq_3)
        with Inl show ?thesis by (intro exI[of _ 3]) (simp add: numeral_2_eq_2)
      qed
    qed
  qed
qed

text \<open>
  Claim C7. When the publish at the preferred status has failed three times, so that its
  retries are exhausted, \<^verbatim>\<open>publish_with_fallback\<close> makes exactly one more call of
  \<^verbatim>\<open>publish_post\<close>, at status \<^verbatim>\<open>draft\<close> with the same arguments; that call sends one to
  three requests. If it succeeds, the result is the success result built from the
  answer of the CMS, marked \<^verbatim>\<open>fallback_used\<close>; if it fails as well, the result is the
  record \<^verbatim>\<open>{success: False, error, title}\<close>, returned and not raised. Nothing here
  depends on the preferred status being other than \<^verbatim>\<open>draft\<close>.
\<close>

theorem fallback_to_draft:
  assumes "publish_post server title content preferred categories tags hours sent = (Inl e, sent1)"
  shows "sent1 = sent @ replicate 3 (request title content preferred categories tags hours)
     \<and> publish_with_fallback server title content preferred categories tags hours sent =
         (case publish_post server title content ''draft'' categories tags hours sent1 of
            (Inr result, sent2) \<Rightarrow> (result\<lparr>res_fallback_used := True\<rparr>, sent2)
          | (Inl fallback_error, sent2) \<Rightarrow> (failure_result title fallback_error, sent2))
     \<and> (\<exists>k res. 1 \<le> k \<and> k \<le> 3
           \<and> publish_with_fallback server title content preferred categories tags hours sent =
               (res, sent1 @ replicate k (request title content ''draft'' categories tags hours))
           \<and> (res_success res \<longrightarrow>
                 (\<exists>resp. server (sent1 @ replicate (k - 1)
                                     (request title content ''draft'' categories tags hours))
                            (request title content ''draft'' categories tags hours) = Inr resp
                         \<and> res = (success_result resp)\<lparr>res_fallback_used := True\<rparr>))
           \<and> (\<not> res_success res \<longrightarrow>
                 k = 3 \<and> (\<exists>fe. server (sent1 @ replicate 2
                                     (request title content ''draft'' categories tags hours))
                            (request title content ''draft'' categories tags hours) = Inl fe
                         \<and> res = failure_result title fe)))"
proof (intro conjI)
  from publish_post_result[OF assms]
  show "sent1 = sent @ replicate 3 (request title content preferred categories tags hours)"
    by auto
  show eq: "publish_with_fallback server title content preferred categories tags hours sent =
         (case publish_post server title content ''draft'' categories tags hours sent1 of
            (Inr result, sent2) \<Rightarrow> (result\<lparr>res_fallback_used := True\<rparr>, sent2)
          | (Inl fallback_error, sent2) \<Rightarrow> (failure_result title fallback_error, sent2))"
    using assms by (simp add: publish_with_fallback_def)
  obtain r sent2 where d: "publish_post server title content ''draft'' categories tags hours sent1 = (r, sent2)"
    by (cases "publish_post server title content ''draft'' categories tags hours sent1")
  let ?rq = "request title content ''draft'' categories tags hours"
  from publish_post_result[OF d] obtain k where k: "1 \<le> k" "k \<le> 3" "sent2 = sent1 @ replicate k ?rq"
    and r: "case r of
              Inl e \<Rightarrow> k = 3 \<and> server (sent1 @ replicate 2 ?rq) ?rq = Inl e
            | Inr res \<Rightarrow> \<exists>resp. server (sent1 @ replicate (k - 1) ?rq) ?rq = Inr resp
                              \<and> res = success_result resp"
    by blast
  show "\<exists>k res. 1 \<le> k \<and> k \<le> 3
           \<and> publish_with_fallback server title content preferred categories tags hours sent =
               (res, sent1 @ replicate k ?rq)
           \<and> (res_success res \<longrightarrow>
                 (\<exists>resp. server (sent1 @ replicate (k - 1) ?rq) ?rq = Inr resp
                         \<and> res = (success_result resp)\<lparr>res_fallback_used := True\<rparr>))
           \<and> (\<not> res_success res \<longrightarrow>
                 k = 3 \<and> (\<exists>fe. server (sent1 @ replicate 2 ?rq) ?rq = Inl fe
                         \<and> res = failure_result title fe))"
  proof (cases r)
    case (Inl fe)
    with r k d eq show ?thesis
      by (intro exI[of _ k] exI[of _ "failure_result title fe"])
         (simp add: failure_result_def)
  next
    case (Inr res)
    with r obtain resp where "server (sent1 @ replicate (k - 1) ?rq) ?rq = Inr resp"
      "res = success_result resp" by auto
    with Inr k d eq show ?thesis
      by (intro exI[of _ k] exI[of _ "(success_result resp)\<lparr>res_fallback_used := True\<rparr>"])
         (simp add: success_result_def)
  qed
qed

theorem fallback_to_draft_witness:
  "publish_post flaky_server (str ''T'') (str ''body'') ''publish'' [5] [] None []
     = (Inl ''503 Server Error'',
        replicate 3 (request (str ''T'') (str ''body'') ''publish'' [5] [] None))
   \<and> publish_with_fallback flaky_server (str ''T'') (str ''body'') ''publish'' [5] [] None []
     = (\<lparr>res_success = True, res_post_id = Some 4,
         res_link = Some (str ''https://blog.example/?p=1''), res_status = Some ''draft'',
         res_title = Some (str ''T''), res_error = None, res_fallback_used = True\<rparr>,
        replicate 3 (request (str ''T'') (str ''body'') ''publish'' [5] [] None)
          @ [request (str ''T'') (str ''body'') ''draft'' [5] [] None])
   \<and> publish_with_fallback down_server (str ''T'') (str ''body'') ''publish'' [5] [] None []
     = (\<lparr>res_success = False, res_post_id = None, res_link = None, res_status = None,
         res_title = Some (str ''T''), res_error = Some ''connection refused'',
         res_fallback_used = False\<rparr>,
        replicate 3 (request (str ''T'') (str ''body'') ''publish'' [5] [] None)
          @ replicate 3 (request (str ''T'') (str ''body'') ''draft'' [5] [] None))"
proof -
  have a: "publish_post flaky_server (str ''T'') (str ''body'') ''publish'' [5] [] None []
     = (Inl ''503 Server Error'',
        replicate 3 (request (str ''T'') (str ''body'') ''publish'' [5] [] None))"
    by (simp add: publish_post_def retry3 publish_once_eq flaky_server_def numeral_3_eq_3)
  have b: "publish_post down_server (str ''T'') (str ''body'') ''publish'' [5] [] None []
     = (Inl ''connection refused'',
        replicate 3 (request (str ''T'') (str ''body'') ''publish'' [5] [] None))"
    by (simp add: publish_post_def retry3 publish_once_eq down_server_def numeral_3_eq_3)
  from fallback_to_draft[OF a]
  have "publish_with_fallback flaky_server (str ''T'') (str ''body'') ''publish'' [5] [] None []
     = (\<lparr>res_success = True, res_post_id = Some 4,
         res_link = Some (str ''https://blog.example/?p=1''), res_status = Some ''draft'',
         res_title = Some (str ''T''), res_error = None, res_fallback_used = True\<rparr>,
        replicate 3 (request (str ''T'') (str ''body'') ''publish'' [5] [] None)
          @ [request (str ''T'') (str ''body'') ''draft'' [5] [] None])"
    by (simp add: publish_post_def retry3 publish_once_eq flaky_server_def echo_server_def
          success_result_def request_def numeral_3_eq_3)
  moreover from fallback_to_draft[OF b]
  have "publish_with_fallback down_server (str ''T'') (str ''body'') ''publish'' [5] [] None []
     = (\<lparr>res_success = False, res_post_id = None, res_link = None, res_status = None,
         res_title = Some (str ''T''), res_error = Some ''connection refused'',
         res_fallback_used = False\<rparr>,
        replicate 3 (request (str ''T'') (str ''body'') ''publish'' [5] [] None)
          @ replicate 3 (request (str ''T'') (str ''body'') ''draft'' [5] [] None))"
    by (simp add: publish_post_def retry3 publish_once_eq down_server_def failure_result_def
          numeral_3_eq_3)
  ultimately show ?thesis using a by simp
qed

lemma pwf_summary:
  assumes "publish_with_fallback server t c pref cats tags h sent = (res, sent')"
  shows "\<exists>reqs. sent' = sent @ reqs \<and> reqs \<noteq> []
           \<and> (\<forall>d\<in>set reqs. (pd_status d = pref \<or> pd_status d = ''draft'')
                               \<and> pd_title d = t \<and> pd_content d = c)
           \<and> ((\<exists>resp. server (sent @ butlast reqs) (last reqs) = Inr resp
                    \<and> (res = success_result resp
                        \<or> res = (success_result resp)\<lparr>res_fallback_used := True\<rparr>))
                \<or> (\<exists>e. server (sent @ butlast reqs) (last reqs) = Inl e
                       \<and> res = failure_result t e \<and> pd_status (last reqs) = ''draft''))"
proof -
  let ?rp = "request t c pref cats tags h" and ?rd = "request t c ''draft'' cats tags h"
  have stp: "pd_status ?rp = pref \<and> pd_title ?rp = t \<and> pd_content ?rp = c"
    and std: "pd_status ?rd = ''draft'' \<and> pd_title ?rd = t \<and> pd_content ?rd = c"
    by (simp_all add: request_def)
  obtain r1 sent1 where p1: "publish_post server t c pref cats tags h sent = (r1, sent1)"
    by (cases "publish_post server t c pref cats tags h sent")
  from publish_post_result[OF p1] obtain k where k: "1 \<le> k" "k \<le> 3" "sent1 = sent @ replicate k ?rp"
    and r1: "case r1 of
               Inl e \<Rightarrow> k = 3 \<and> server (sent @ replicate 2 ?rp) ?rp = Inl e
             | Inr res \<Rightarrow> \<exists>resp. server (sent @ replicate (k - 1) ?rp) ?rp = Inr resp
                               \<and> res = success_result resp"
    by blast
  from k(1) have lk: "last (replicate k ?rp) = ?rp" "butlast (replicate k ?rp) = replicate (k - 1) ?rp"
    "replicate k ?rp \<noteq> []"
    by (simp_all add: butlast_conv_take)
  show ?thesis
  proof (cases r1)
    case (Inr res1)
    with p1 assms have eq: "res = res1" "sent' = sent1" by (auto simp: publish_with_fallback_def)
    from Inr r1 obtain resp where resp: "server (sent @ replicate (k - 1) ?rp) ?rp = Inr resp"
      "res1 = success_result resp" by auto
    have a: "sent' = sent @ replicate k ?rp" using eq k(3) by simp
    have b: "\<forall>d\<in>set (replicate k ?rp). (pd_status d = pref \<or> pd_status d = ''draft'')
                               \<and> pd_title d = t \<and> pd_content d = c"
      using stp by simp
    have c: "server (sent @ butlast (replicate k ?rp)) (last (replicate k ?rp)) = Inr resp
               \<and> (res = success_result resp
                        \<or> res = (success_result resp)\<lparr>res_fallback_used := True\<rparr>)"
      using resp eq(1) lk by simp
    from a lk(3) b c show ?thesis by blast
  next
    case (Inl e1)
    obtain r2 sent2 where p2: "publish_post server t c ''draft'' cats tags h sent1 = (r2, sent2)"
      by (cases "publish_post server t c ''draft'' cats tags h sent1")
    from publish_post_result[OF p2] obtain j where j: "1 \<le> j" "j \<le> 3" "sent2 = sent1 @ replicate j ?rd"
      and r2: "case r2 of
                 Inl e \<Rightarrow> j = 3 \<and> server (sent1 @ replicate 2 ?rd) ?rd = Inl e
               | Inr res \<Rightarrow> \<exists>resp. server (sent1 @ replicate (j - 1) ?rd) ?rd = Inr resp
                                 \<and> res = success_result resp"
      by blast
    let ?reqs = "replicate k ?rp @ replicate j ?rd"
    from j(1) have lj: "last ?reqs = ?rd" "butlast ?reqs = replicate k ?rp @ replicate (j - 1) ?rd"
      "?reqs \<noteq> []"
      by (simp_all add: butlast_conv_take butlast_append)
    have pw: "publish_with_fallback server t c pref cats tags h sent =
               (case r2 of Inr result \<Rightarrow> result\<lparr>res_fallback_used := True\<rparr>
                         | Inl fe \<Rightarrow> failure_result t fe, sent2)"
      using p1 p2 Inl by (simp add: publish_with_fallback_def split: sum.splits)
    with assms have s2: "sent' = sent2" and
      res: "res = (case r2 of Inr result \<Rightarrow> result\<lparr>res_fallback_used := True\<rparr>
                            | Inl fe \<Rightarrow> failure_result t fe)"
      by simp_all
    have a: "sent' = sent @ ?reqs" using s2 j(3) k(3) by simp
    have b: "\<forall>d\<in>set ?reqs. (pd_status d = pref \<or> pd_status d = ''draft'')
                               \<and> pd_title d = t \<and> pd_content d = c"
    proof
      fix d assume "d \<in> set ?reqs"
      then have "d = ?rp \<or> d = ?rd" by auto
      then show "(pd_status d = pref \<or> pd_status d = ''draft'') \<and> pd_title d = t \<and> pd_content d = c"
        using stp std by blast
    qed
    have hist: "sent @ butlast ?reqs = sent1 @ replicate (j - 1) ?rd"
      using lj(2) k(3) by simp
    show ?thesis
    proof (cases r2)
      case (Inr res2)
      with r2 obtain resp where "server (sent1 @ replicate (j - 1) ?rd) ?rd = Inr resp"
        "res2 = success_result resp" by auto
      with Inr res hist lj(1)
      have "server (sent @ butlast ?reqs) (last ?reqs) = Inr resp
              \<and> (res = success_result resp
                  \<or> res = (success_result resp)\<lparr>res_fallback_used := True\<rparr>)"
        by simp
      with a lj(3) b show ?thesis by blast
    next
      case fe: (Inl fe)
      with r2 have "j = 3" "server (sent1 @ replicate 2 ?rd) ?rd = Inl fe" by auto
      with fe res hist lj(1) std
      have "server (sent @ butlast ?reqs) (last ?reqs) = Inl fe
              \<and> res = failure_result t fe \<and> pd_status (last ?reqs) = ''draft''"
        by (simp add: numeral_2_eq_2)
      with a lj(3) b show ?thesis by blast
    qed
  qed
qed

section \<open>One run of the coordinator\<close>

lemma vocab_lengths:
  "length MBTI_TYPES = 16" "length LOVE_SITUATIONS = 20" "length TAROT_MAJOR_ARCANA = 22"
  by (simp_all add: vocab_defs)

lemma calculate_remaining_ok: "\<exists>n. calculate_remaining_combinations db = Inr n"
  by (simp add: calculate_remaining_combinations_def get_stats_total err_bind_def py_truediv_def
        vocab_lengths Let_def)

lemma validation_step_eq:
  "validation_step p t c =
     (if fst (validate t c) then (c, p)
      else if auto_sanitize p
           then (if fst (validate t (sanitize_content c)) then (sanitize_content c, p)
                 else (sanitize_content c, p\<lparr>publish_status := ''draft''\<rparr>))
           else (c, p\<lparr>publish_status := ''draft''\<rparr>))"
  by (simp add: validation_step_def Let_def split_beta)

lemma validation_step_invalid:
  "\<not> fst (validate t c) \<Longrightarrow> (auto_sanitize p \<longrightarrow> \<not> fst (validate t (sanitize_content c))) \<Longrightarrow>
     validation_step p t c =
       (if auto_sanitize p then sanitize_content c else c, p\<lparr>publish_status := ''draft''\<rparr>)"
  by (simp add: validation_step_eq)

lemma validation_step_frame:
  assumes "validation_step p t c = (c', p')"
  shows "ledger p' = ledger p \<and> auto_sanitize p' = auto_sanitize p
         \<and> schedule_hours p' = schedule_hours p
         \<and> (publish_status p' = publish_status p \<or> publish_status p' = ''draft'')"
  using assms by (auto simp: validation_step_eq split: if_splits)

lemma run_eq:
  assumes "generate_unique_topic (ledger p) (env_rnd env) = Inr tp"
    and "generate_content env tp = Inr cd"
    and "validation_step p (cd_title cd) (cd_content cd) = (c, p1)"
    and "publish_step env p1 tp (cd_title cd) c sent = (res, sent1)"
  shows "run env (p, sent) =
           (fst (record_step p1 tp (cd_title cd) res), snd (record_step p1 tp (cd_title cd) res), sent1)"
proof -
  obtain n where "calculate_remaining_combinations (ledger p) = Inr n"
    using calculate_remaining_ok by blast
  with assms show ?thesis by (simp add: run_def Let_def split: prod.splits)
qed

lemma run_no_topic:
  "generate_unique_topic (ledger p) (env_rnd env) = Inl e \<Longrightarrow> run env (p, sent) = (False, p, sent)"
  by (simp add: run_def)

lemma run_no_content:
  assumes "generate_unique_topic (ledger p) (env_rnd env) = Inr tp"
    and "generate_content env tp = Inl e"
  shows "run env (p, sent) = (False, p, sent)"
proof -
  obtain n where "calculate_remaining_combinations (ledger p) = Inr n"
    using calculate_remaining_ok by blast
  with assms show ?thesis by (simp add: run_def)
qed

lemma publish_step_summary:
  assumes "publish_step env p tp t c sent = (res, sent')"
  shows "\<exists>reqs. sent' = sent @ reqs \<and> reqs \<noteq> []
           \<and> (\<forall>d\<in>set reqs. (pd_status d = publish_status p \<or> pd_status d = ''draft'')
                               \<and> pd_title d = t \<and> pd_content d = c)
           \<and> ((\<exists>resp. env_wordpress env (sent @ butlast reqs) (last reqs) = Inr resp
                    \<and> (res = success_result resp
                        \<or> res = (success_result resp)\<lparr>res_fallback_used := True\<rparr>))
                \<or> (\<exists>e. env_wordpress env (sent @ butlast reqs) (last reqs) = Inl e
                       \<and> res = failure_result t e \<and> pd_status (last reqs) = ''draft''))"
  using assms unfolding publish_step_def Let_def by (rule pwf_summary)

lemma record_step_success:
  "record_step p tp t (success_result resp) =
     (True, p\<lparr>ledger := ledger p @
        [\<lparr>row_mbti = mbti tp, row_love_situation = love_situation tp,
          row_tarot_card = tarot_card tp, row_title = t, row_post_id = Some (resp_id resp),
          row_post_url = Some (resp_link resp), row_status = resp_status resp,
          row_error_message = None\<rparr>]\<rparr>)"
  by (simp add: record_step_def success_result_def save_published_topic_def)

lemma record_step_fallback:
  "record_step p tp t ((success_result resp)\<lparr>res_fallback_used := True\<rparr>) =
     record_step p tp t (success_result resp)"
  by (simp add: record_step_def success_result_def)

lemma record_step_failure:
  "record_step p tp t (failure_result t' e) =
     (False, p\<lparr>ledger := ledger p @
        [\<lparr>row_mbti = mbti tp, row_love_situation = love_situation tp,
          row_tarot_card = tarot_card tp, row_title = t, row_post_id = None,
          row_post_url = None, row_status = ''failed'', row_error_message = Some e\<rparr>]\<rparr>)"
  by (simp add: record_step_def failure_result_def save_published_topic_def)


lemma validate_short: "length c < 1000 \<Longrightarrow> \<not> fst (validate t c)"
  by (simp add: validate_issues)

lemma fresh_topic_0: "generate_unique_topic [] (\<lambda>k. 0) = Inr first_topic"
  by (simp add: generate_unique_topic_unfold draw_eval is_topic_used_def first_topic_def)

lemma fresh_topic_1: "generate_unique_topic [first_row st] (\<lambda>k. Suc 0) = Inr second_topic"
  by (simp add: generate_unique_topic_unfold draw_eval is_topic_used_def first_topic_def
        first_row_def second_topic_def)


lemma sanitize_too_short: "sanitize_content (str ''too short'') = str ''too short''"
  by (simp add: sanitize_content_def replacements_def str_def sub_eval ci_match_def sre_lower_def)


lemma short_run:
  "run short_env (sample_publisher, []) =
     (True, sample_publisher\<lparr>publish_status := ''draft'', ledger := [first_row ''draft'']\<rparr>,
      [request (str ''T'') (str ''too short'') ''draft'' [5, 5, 5] [] None])"
proof -
  let ?cd = "\<lparr>cd_title = str ''T'', cd_content = str ''too short''\<rparr>"
  let ?p1 = "sample_publisher\<lparr>publish_status := ''draft''\<rparr>"
  have tp: "generate_unique_topic (ledger sample_publisher) (env_rnd short_env) = Inr first_topic"
    by (simp add: sample_publisher_def short_env_def fresh_topic_0)
  have cd: "generate_content short_env first_topic = Inr ?cd"
    by (simp add: generate_content_def retry3 short_env_def)
  have inv: "\<not> fst (validate (str ''T'') (str ''too short''))"
    by (rule validate_short) (simp add: str_def)
  have v: "validation_step sample_publisher (cd_title ?cd) (cd_content ?cd) = (str ''too short'', ?p1)"
    by (simp add: validation_step_eq inv sanitize_too_short sample_publisher_def)
  have ps: "publish_step short_env ?p1 first_topic (cd_title ?cd) (str ''too short'') [] =
              (success_result \<lparr>resp_id = 1, resp_link = str ''https://blog.example/?p=1'',
                                resp_status = ''draft'', resp_title = str ''T''\<rparr>,
               [request (str ''T'') (str ''too short'') ''draft'' [5, 5, 5] [] None])"
    by (simp add: publish_step_def get_categories_def get_tags_def err_bind_def short_env_def
          publish_with_fallback_def publish_post_def retry3 publish_once_eq echo_server_def
          request_def sample_publisher_def truthy_def)
  from run_eq[OF tp cd v ps] show ?thesis
    by (simp add: record_step_success first_row_def sample_publisher_def)
qed




lemma run_draft_requests:
  assumes "run env (p, sent) = (ok, p', sent')" and "publish_status p = ''draft''"
  shows "publish_status p' = ''draft''
         \<and> (\<exists>reqs. sent' = sent @ reqs \<and> (\<forall>d\<in>set reqs. pd_status d = ''draft''))"
proof (cases "generate_unique_topic (ledger p) (env_rnd env)")
  case (Inl e)
  with assms run_no_topic[OF Inl, of sent] show ?thesis by simp
next
  case tp: (Inr tp)
  show ?thesis
  proof (cases "generate_content env tp")
    case (Inl e)
    with assms run_no_content[OF tp Inl, of sent] show ?thesis by simp
  next
    case cd: (Inr cd)
    obtain c p1 where v: "validation_step p (cd_title cd) (cd_content cd) = (c, p1)"
      by (cases "validation_step p (cd_title cd) (cd_content cd)")
    obtain res sent1 where ps: "publish_step env p1 tp (cd_title cd) c sent = (res, sent1)"
      by (cases "publish_step env p1 tp (cd_title cd) c sent")
    from validation_step_frame[OF v] assms(2) have d1: "publish_status p1 = ''draft''" by auto
    from run_eq[OF tp cd v ps] assms(1)
    have r: "record_step p1 tp (cd_title cd) res = (ok, p')" and s: "sent' = sent1" by simp_all
    from r d1 have "publish_status p' = ''draft''"
      by (auto simp: record_step_def split: if_splits option.splits)
    moreover from publish_step_summary[OF ps] d1 s
    have "\<exists>reqs. sent' = sent @ reqs \<and> (\<forall>d\<in>set reqs. pd_status d = ''draft'')" by auto
    ultimately show ?thesis by simp
  qed
qed

lemma runs_draft_requests:
  "runs envs (p, sent) = (p', sent') \<Longrightarrow> publish_status p = ''draft'' \<Longrightarrow>
     publish_status p' = ''draft''
     \<and> (\<exists>reqs. sent' = sent @ reqs \<and> (\<forall>d\<in>set reqs. pd_status d = ''draft''))"
proof (induction envs arbitrary: p sent)
  case Nil
  then show ?case by simp
next
  case (Cons env envs)
  obtain ok p1 sent1 where r: "run env (p, sent) = (ok, p1, sent1)"
    by (cases "run env (p, sent)") auto
  from run_draft_requests[OF r Cons.prems(2)] obtain reqs1 where
    d1: "publish_status p1 = ''draft''" and s1: "sent1 = sent @ reqs1"
    "\<forall>d\<in>set reqs1. pd_status d = ''draft''" by blast
  from Cons.prems(1) r have "runs envs (p1, sent1) = (p', sent')" by simp
  from Cons.IH[OF this d1] obtain reqs2 where
    "publish_status p' = ''draft''" "sent' = sent1 @ reqs2" "\<forall>d\<in>set reqs2. pd_status d = ''draft''"
    by blast
  with s1 show ?case by (intro conjI exI[of _ "reqs1 @ reqs2"]) auto
qed

lemma run_invalid:
  assumes tp: "generate_unique_topic (ledger p) (env_rnd env) = Inr tp"
    and cd: "generate_content env tp = Inr cd"
    and inv: "\<not> fst (validate (cd_title cd) (cd_content cd))"
    and still: "auto_sanitize p \<longrightarrow> \<not> fst (validate (cd_title cd) (sanitize_content (cd_content cd)))"
    and run: "run env (p, sent) = (ok, p', sent')"
  shows "publish_status p' = ''draft''
     \<and> (\<exists>reqs. sent' = sent @ reqs \<and> reqs \<noteq> [] \<and> (\<forall>d\<in>set reqs. pd_status d = ''draft''))
     \<and> (\<exists>row. ledger p' = ledger p @ [row]
           \<and> (row_status row = ''failed''
               \<or> (\<exists>hist d resp. pd_status d = ''draft'' \<and> env_wordpress env hist d = Inr resp
                      \<and> row_status row = resp_status resp)))"
proof -
  let ?c = "if auto_sanitize p then sanitize_content (cd_content cd) else cd_content cd"
  let ?p1 = "p\<lparr>publish_status := ''draft''\<rparr>"
  have v: "validation_step p (cd_title cd) (cd_content cd) = (?c, ?p1)"
    using inv still by (rule validation_step_invalid)
  obtain res sent1 where ps: "publish_step env ?p1 tp (cd_title cd) ?c sent = (res, sent1)"
    by (cases "publish_step env ?p1 tp (cd_title cd) ?c sent")
  from run_eq[OF tp cd v ps] run
  have r: "record_step ?p1 tp (cd_title cd) res = (ok, p')" and s: "sent' = sent1" by simp_all
  from publish_step_summary[OF ps] obtain reqs where
    reqs: "sent1 = sent @ reqs" "reqs \<noteq> []" "\<forall>d\<in>set reqs. pd_status d = ''draft''"
    and alt: "(\<exists>resp. env_wordpress env (sent @ butlast reqs) (last reqs) = Inr resp
                \<and> (res = success_result resp
                    \<or> res = (success_result resp)\<lparr>res_fallback_used := True\<rparr>))
            \<or> (\<exists>e. env_wordpress env (sent @ butlast reqs) (last reqs) = Inl e
                   \<and> res = failure_result (cd_title cd) e \<and> pd_status (last reqs) = ''draft'')"
    by auto
  from reqs have lastd: "pd_status (last reqs) = ''draft''" by simp
  from r have st: "publish_status p' = ''draft''"
    by (auto simp: record_step_def split: if_splits option.splits)
  from alt have "\<exists>row. ledger p' = ledger p @ [row]
           \<and> (row_status row = ''failed''
               \<or> (\<exists>hist d resp. pd_status d = ''draft'' \<and> env_wordpress env hist d = Inr resp
                      \<and> row_status row = resp_status resp))"
  proof
    assume "\<exists>resp. env_wordpress env (sent @ butlast reqs) (last reqs) = Inr resp
                \<and> (res = success_result resp
                    \<or> res = (success_result resp)\<lparr>res_fallback_used := True\<rparr>)"
    then obtain resp where resp: "env_wordpress env (sent @ butlast reqs) (last reqs) = Inr resp"
      and "res = success_result resp \<or> res = (success_result resp)\<lparr>res_fallback_used := True\<rparr>"
      by blast
    then have "record_step ?p1 tp (cd_title cd) res = record_step ?p1 tp (cd_title cd) (success_result resp)"
      by (auto simp: record_step_fallback)
    with r have "ledger p' = ledger p @
        [\<lparr>row_mbti = mbti tp, row_love_situation = love_situation tp,
          row_tarot_card = tarot_card tp, row_title = cd_title cd, row_post_id = Some (resp_id resp),
          row_post_url = Some (resp_link resp), row_status = resp_status resp,
          row_error_message = None\<rparr>]"
      by (auto simp: record_step_success)
    with resp lastd show ?thesis by auto
  next
    assume "\<exists>e. env_wordpress env (sent @ butlast reqs) (last reqs) = Inl e
                   \<and> res = failure_result (cd_title cd) e \<and> pd_status (last reqs) = ''draft''"
    then obtain e where "res = failure_result (cd_title cd) e" by blast
    with r have "ledger p' = ledger p @
        [\<lparr>row_mbti = mbti tp, row_love_situation = love_situation tp,
          row_tarot_card = tarot_card tp, row_title = cd_title cd, row_post_id = None,
          row_post_url = None, row_status = ''failed'', row_error_message = Some e\<rparr>]"
      by (auto simp: record_step_failure)
    then show ?thesis by auto
  qed
  with st reqs s show ?thesis by auto
qed



lemma run_requests_content:
  assumes tp: "generate_unique_topic (ledger p) (env_rnd env) = Inr tp"
    and cd: "generate_content env tp = Inr cd"
    and valid: "fst (validate (cd_title cd) (cd_content cd))"
    and run: "run env (p, sent) = (ok, p', sent')"
  shows "\<exists>reqs. sent' = sent @ reqs \<and> reqs \<noteq> []
           \<and> (\<forall>d\<in>set reqs. (pd_status d = publish_status p \<or> pd_status d = ''draft'')
                               \<and> pd_title d = cd_title cd \<and> pd_content d = cd_content cd)"
proof -
  have v: "validation_step p (cd_title cd) (cd_content cd) = (cd_content cd, p)"
    using valid by (simp add: validation_step_eq)
  obtain res sent1 where ps: "publish_step env p tp (cd_title cd) (cd_content cd) sent = (res, sent1)"
    by (cases "publish_step env p tp (cd_title cd) (cd_content cd) sent")
  from run_eq[OF tp cd v ps] run have "sent' = sent1" by simp
  with publish_step_summary[OF ps] show ?thesis by blast
qed

text \<open>
  Claim C9. The downgrade is a change of the instance. After a run whose content stayed
  invalid, \<^verbatim>\<open>publish_status\<close> is \<^verbatim>\<open>draft\<close>; it is still \<^verbatim>\<open>draft\<close> after any further
  runs on the instance, every request those runs send has status \<^verbatim>\<open>draft\<close>, and a
  later run whose own content passes validation sends that content, at status
  \<^verbatim>\<open>draft\<close>.
\<close>

theorem downgrade_is_permanent:
  assumes "generate_unique_topic (ledger p) (env_rnd env) = Inr tp"
    and "generate_content env tp = Inr cd"
    and "\<not> fst (validate (cd_title cd) (cd_content cd))"
    and "auto_sanitize p \<longrightarrow> \<not> fst (validate (cd_title cd) (sanitize_content (cd_content cd)))"
    and "run env (p, sent) = (ok, p', sent')"
    and "runs envs (p', sent') = (p'', sent'')"
  shows "publish_status p' = ''draft'' \<and> publish_status p'' = ''draft''
     \<and> (\<exists>reqs. sent'' = sent' @ reqs \<and> (\<forall>d\<in>set reqs. pd_status d = ''draft''))
     \<and> (\<forall>env2 tp2 cd2 ok2 p3 sent3.
           generate_unique_topic (ledger p'') (env_rnd env2) = Inr tp2
           \<longrightarrow> generate_content env2 tp2 = Inr cd2
           \<longrightarrow> fst (validate (cd_title cd2) (cd_content cd2))
           \<longrightarrow> run env2 (p'', sent'') = (ok2, p3, sent3)
           \<longrightarrow> (\<exists>reqs. sent3 = sent'' @ reqs \<and> reqs \<noteq> []
                  \<and> (\<forall>d\<in>set reqs. pd_status d = ''draft''
                                      \<and> pd_content d = cd_content cd2)))"
proof -
  from run_invalid[OF assms(1-5)] have d: "publish_status p' = ''draft''" by simp
  from runs_draft_requests[OF assms(6) d]
  have d2: "publish_status p'' = ''draft''"
    and reqs: "\<exists>reqs. sent'' = sent' @ reqs \<and> (\<forall>d\<in>set reqs. pd_status d = ''draft'')"
    by simp_all
  have later: "\<exists>reqs. sent3 = sent'' @ reqs \<and> reqs \<noteq> []
                  \<and> (\<forall>d\<in>set reqs. pd_status d = ''draft'' \<and> pd_content d = cd_content cd2)"
    if "generate_unique_topic (ledger p'') (env_rnd env2) = Inr tp2"
      "generate_content env2 tp2 = Inr cd2"
      "fst (validate (cd_title cd2) (cd_content cd2))"
      "run env2 (p'', sent'') = (ok2, p3, sent3)"
    for env2 tp2 cd2 ok2 p3 sent3
    using run_requests_content[OF that] d2 by auto
  from d d2 reqs later show ?thesis by blast
qed

lemma valid_run_after_short:
  "run valid_env (sample_publisher\<lparr>publish_status := ''draft'', ledger := [first_row ''draft'']\<rparr>,
                  [request (str ''T'') (str ''too short'') ''draft'' [5, 5, 5] [] None]) =
     (True,
      sample_publisher\<lparr>publish_status := ''draft'',
        ledger := [first_row ''draft'',
          \<lparr>row_mbti = mbti second_topic, row_love_situation = love_situation second_topic,
            row_tarot_card = tarot_card second_topic, row_title = str ''T'', row_post_id = Some 2,
            row_post_url = Some (str ''https://blog.example/?p=1''), row_status = ''draft'',
            row_error_message = None\<rparr>]\<rparr>,
      [request (str ''T'') (str ''too short'') ''draft'' [5, 5, 5] [] None,
       request (str ''T'') sample_body ''draft'' [5, 5, 5] [9, 9, 9, 9] None])"
proof -
  let ?cd = "\<lparr>cd_title = str ''T'', cd_content = sample_body\<rparr>"
  let ?p1 = "sample_publisher\<lparr>publish_status := ''draft'', ledger := [first_row ''draft'']\<rparr>"
  let ?s1 = "[request (str ''T'') (str ''too short'') ''draft'' [5, 5, 5] [] None]"
  have tp: "generate_unique_topic (ledger ?p1) (env_rnd valid_env) = Inr second_topic"
    by (simp add: valid_env_def fresh_topic_1)
  have cd: "generate_content valid_env second_topic = Inr ?cd"
    by (simp add: generate_content_def retry3 valid_env_def)
  have v: "validation_step ?p1 (cd_title ?cd) (cd_content ?cd) = (sample_body, ?p1)"
    by (simp add: validation_step_eq sample_valid)
  have ps: "publish_step valid_env ?p1 second_topic (cd_title ?cd) sample_body ?s1 =
              (success_result \<lparr>resp_id = 2, resp_link = str ''https://blog.example/?p=1'',
                                resp_status = ''draft'', resp_title = str ''T''\<rparr>,
               ?s1 @ [request (str ''T'') sample_body ''draft'' [5, 5, 5] [9, 9, 9, 9] None])"
    by (simp add: publish_step_def get_categories_def get_tags_def err_bind_def valid_env_def
          publish_with_fallback_def publish_post_def retry3 publish_once_eq echo_server_def
          request_def sample_publisher_def truthy_def)
  from run_eq[OF tp cd v ps] show ?thesis
    by (simp add: record_step_success sample_publisher_def)
qed

theorem downgrade_is_permanent_witness:
  "publish_status sample_publisher = ''publish''
   \<and> fst (validate (str ''T'') sample_body)
   \<and> publish_status (fst (runs [valid_env] (snd (run short_env (sample_publisher, []))))) = ''draft''
   \<and> map pd_status (snd (runs [valid_env] (snd (run short_env (sample_publisher, [])))))
       = [''draft'', ''draft'']
   \<and> map pd_content (snd (runs [valid_env] (snd (run short_env (sample_publisher, [])))))
       = [str ''too short'', sample_body]"
proof -
  let ?cd = "\<lparr>cd_title = str ''T'', cd_content = str ''too short''\<rparr>"
  let ?p1 = "sample_publisher\<lparr>publish_status := ''draft'', ledger := [first_row ''draft'']\<rparr>"
  let ?s1 = "[request (str ''T'') (str ''too short'') ''draft'' [5, 5, 5] [] None]"
  have tp: "generate_unique_topic (ledger sample_publisher) (env_rnd short_env) = Inr first_topic"
    by (simp add: sample_publisher_def short_env_def fresh_topic_0)
  have cd: "generate_content short_env first_topic = Inr ?cd"
    by (simp add: generate_content_def retry3 short_env_def)
  have inv: "\<not> fst (validate (cd_title ?cd) (cd_content ?cd))"
    using validate_short[of "str ''too short''" "str ''T''"] by (simp add: str_def)
  have still: "auto_sanitize sample_publisher
                 \<longrightarrow> \<not> fst (validate (cd_title ?cd) (sanitize_content (cd_content ?cd)))"
    using inv by (simp add: sanitize_too_short)
  obtain p2 s2 where r2: "runs [valid_env] (?p1, ?s1) = (p2, s2)"
    by (cases "runs [valid_env] (?p1, ?s1)")
  from downgrade_is_permanent[OF tp cd inv still short_run r2]
  have d: "publish_status p2 = ''draft''" by simp
  from r2 have s2: "s2 = [request (str ''T'') (str ''too short'') ''draft'' [5, 5, 5] [] None,
       request (str ''T'') sample_body ''draft'' [5, 5, 5] [9, 9, 9, 9] None]"
    by (simp add: valid_run_after_short)
  have "publish_status sample_publisher = ''publish''" by (simp add: sample_publisher_def)
  moreover have "fst (validate (str ''T'') sample_body)" by (simp add: sample_valid)
  ultimately show ?thesis using d s2 r2 by (simp add: short_run request_def)
qed


end
